theory Spec2Isabelle
  imports Complex_Main
begin

section \<open>Numbers, vectors and gestures\<close>

text \<open>
  JavaScript numbers are modelled as mathematical reals: the development is about the
  arithmetic the code writes down, not about IEEE rounding. Times are milliseconds as
  returned by \<^verbatim>\<open>performance.now()\<close>.

  Objects of the shape \<^verbatim>\<open>{x, y, z}\<close> (landmarks, hand position, THREE.Vector3 and
  THREE.Euler) are values of \<open>vec3\<close>; objects of the shape \<^verbatim>\<open>{x, y}\<close> (velocity,
  rotation speed, cursor) are values of \<open>vec2\<close>.
\<close>

datatype vec3 = Vec3 (x3: real) (y3: real) (z3: real)

datatype vec2 = Vec2 (x2: real) (y2: real)

text \<open>The string literals the code assigns to \<^verbatim>\<open>HandData.gesture\<close>.\<close>

datatype gesture =
  NONE | PINCH_START | PINCH_END | DOUBLE_PINCH | FIST
  | SWIPE_LEFT | SWIPE_RIGHT | SWIPE_UP | SWIPE_DOWN

section \<open>VisionManager.ts\<close>

record HandData =
  detected :: bool
  position :: vec3
  pinchDistance :: real
  isPinching :: bool
  gesture :: gesture
  velocity :: vec2
  lastPosition :: "vec3 option"
  rotationSpeed :: vec2
  cursor :: vec2
  lastPinchTime :: real
  lastGestureTime :: real

definition createEmptyHandData :: HandData where
  "createEmptyHandData =
     \<lparr> detected = False, position = Vec3 0.5 0.5 0, pinchDistance = 0,
       isPinching = False, gesture = NONE, velocity = Vec2 0 0, lastPosition = None,
       rotationSpeed = Vec2 0 0, cursor = Vec2 0.5 0.5, lastPinchTime = 0,
       lastGestureTime = 0 \<rparr>"

text \<open>
  A landmark array is modelled by its index function; \<^verbatim>\<open>updateHandData\<close> reads the
  indices 0, 4, 5, 8, 12, 16, 17 and 20 of the 21 entries MediaPipe delivers.
\<close>

type_synonym landmarks = "nat \<Rightarrow> vec3"

text \<open>
  One entry of \<^verbatim>\<open>results.landmarks\<close> together with the \<^verbatim>\<open>categoryName\<close> of
  \<^verbatim>\<open>results.handedness[i][0]\<close>, and the value \<^verbatim>\<open>performance.now()\<close> returns inside
  the call of \<^verbatim>\<open>updateHandData\<close> made for it.
\<close>

record detection =
  landmarks :: landmarks
  categoryName :: string
  perfNow :: real

record VisionManager =
  handLandmarker :: bool
  isWebcamRunning :: bool
  lastVideoTime :: real
  leftHand :: HandData
  rightHand :: HandData
  lastHandsDistance :: real
  handsDistance :: real
  handsDetectedBoth :: bool

text \<open>The field initialisers and the constructor of \<^verbatim>\<open>VisionManager\<close>.\<close>

definition newVisionManager :: VisionManager where
  "newVisionManager =
     \<lparr> handLandmarker = False, isWebcamRunning = False, lastVideoTime = -1,
       leftHand = createEmptyHandData, rightHand = createEmptyHandData,
       lastHandsDistance = 0, handsDistance = 0, handsDetectedBoth = False \<rparr>"

subsection \<open>updateHandData\<close>

text \<open>Lines 164-206: palm position, cursor, velocity, rotation speed, pinch distance.\<close>

definition palmPosition :: "landmarks \<Rightarrow> vec3" where
  "palmPosition lm =
     (let wrist = lm 0; indexMCP = lm 5; pinkyMCP = lm 17
      in Vec3 ((x3 wrist + x3 indexMCP + x3 pinkyMCP) / 3)
              ((y3 wrist + y3 indexMCP + y3 pinkyMCP) / 3)
              ((z3 wrist + z3 indexMCP + z3 pinkyMCP) / 3))"

definition deadzone :: "real \<Rightarrow> real" where
  "deadzone d = (if \<bar>d\<bar> > 0.1 then (if d > 0 then d - 0.1 else d + 0.1) * 2 else 0)"

definition rawPinchDist :: "landmarks \<Rightarrow> real" where
  "rawPinchDist lm =
     (let thumbTip = lm 4; indexTip = lm 8;
          dx_pinch = x3 thumbTip - x3 indexTip;
          dy_pinch = y3 thumbTip - y3 indexTip;
          dz_pinch = z3 thumbTip - z3 indexTip
      in sqrt (dx_pinch * dx_pinch + dy_pinch * dy_pinch + dz_pinch * dz_pinch))"

definition remapPinch :: "real \<Rightarrow> real" where
  "remapPinch rawDist = min (max ((rawDist - 0.03) / (0.25 - 0.03)) 0) 1"

definition trackHand :: "HandData \<Rightarrow> landmarks \<Rightarrow> HandData" where
  "trackHand hand lm =
     (let pos = palmPosition lm;
          indexTip = lm 8;
          targetCursorX = 1 - x3 indexTip;
          targetCursorY = y3 indexTip;
          cur = Vec2 (x2 (cursor hand) + (targetCursorX - x2 (cursor hand)) * 0.2)
                     (y2 (cursor hand) + (targetCursorY - y2 (cursor hand)) * 0.2);
          vel = (case lastPosition hand of
                   None \<Rightarrow> velocity hand
                 | Some lastP \<Rightarrow>
                     Vec2 (x2 (velocity hand) * 0.5 + (x3 pos - x3 lastP) * 0.5)
                          (y2 (velocity hand) * 0.5 + (y3 pos - y3 lastP) * 0.5))
      in hand\<lparr> position := pos, cursor := cur, velocity := vel, lastPosition := Some pos,
               rotationSpeed := Vec2 (deadzone (x3 pos - 0.5)) (deadzone (y3 pos - 0.5)),
               pinchDistance := remapPinch (rawPinchDist lm) \<rparr>)"

text \<open>Lines 208-222: the pinch edge detector.\<close>

definition classifyPinch :: "HandData \<Rightarrow> real \<Rightarrow> HandData" where
  "classifyPinch hand now =
     (let currentlyPinching = (pinchDistance hand < 0.1);
          h = hand\<lparr> gesture := NONE \<rparr>
      in if currentlyPinching \<and> \<not> isPinching h then
           h\<lparr> isPinching := True,
              gesture := (if now - lastPinchTime h < 400 then DOUBLE_PINCH else PINCH_START),
              lastPinchTime := now \<rparr>
         else if \<not> currentlyPinching \<and> isPinching h then
           h\<lparr> isPinching := False, gesture := PINCH_END \<rparr>
         else h)"

text \<open>Lines 224-236: the fingertips close to the wrist (distance in the image plane).\<close>

definition tipDistance :: "landmarks \<Rightarrow> nat \<Rightarrow> real" where
  "tipDistance lm idx =
     (let tip = lm idx; palmCenter = lm 0
      in sqrt ((x3 tip - x3 palmCenter)\<^sup>2 + (y3 tip - y3 palmCenter)\<^sup>2))"

definition closedFingers :: "landmarks \<Rightarrow> nat" where
  "closedFingers lm = length (filter (\<lambda>idx. tipDistance lm idx < 0.15) [8, 12, 16, 20])"

definition classifyFist :: "HandData \<Rightarrow> landmarks \<Rightarrow> HandData" where
  "classifyFist hand lm = (if closedFingers lm \<ge> 3 then hand\<lparr> gesture := FIST \<rparr> else hand)"

text \<open>Lines 238-251: the swipe detector with its 400 ms debounce.\<close>

definition classifySwipe :: "HandData \<Rightarrow> landmarks \<Rightarrow> real \<Rightarrow> HandData" where
  "classifySwipe hand lm now =
     (if gesture hand = NONE \<and> \<not> isPinching hand \<and> closedFingers lm < 3
         \<and> now - lastGestureTime hand > 400 then
        (let speedX = x2 (velocity hand) * 100;
             speedY = y2 (velocity hand) * 100;
             threshold = 1.5
         in if \<bar>speedX\<bar> > threshold \<or> \<bar>speedY\<bar> > threshold then
              hand\<lparr> gesture :=
                       (if \<bar>speedX\<bar> > \<bar>speedY\<bar>
                        then (if speedX > 0 then SWIPE_RIGHT else SWIPE_LEFT)
                        else (if speedY > 0 then SWIPE_DOWN else SWIPE_UP)),
                    lastGestureTime := now \<rparr>
            else hand)
      else hand)"

definition updateHandData :: "HandData \<Rightarrow> landmarks \<Rightarrow> real \<Rightarrow> HandData" where
  "updateHandData hand lm now =
     classifySwipe (classifyFist (classifyPinch (trackHand hand lm) now) lm) lm now"

subsection \<open>resetHand, calculateHandsDistance, update\<close>

definition resetHand :: "HandData \<Rightarrow> HandData" where
  "resetHand hand = hand\<lparr> velocity := Vec2 0 0, rotationSpeed := Vec2 0 0, pinchDistance := 0 \<rparr>"

definition calculateHandsDistance :: "VisionManager \<Rightarrow> VisionManager" where
  "calculateHandsDistance vm =
     (if detected (leftHand vm) \<and> detected (rightHand vm) then
        (let dx = x3 (position (leftHand vm)) - x3 (position (rightHand vm));
             dy = y3 (position (leftHand vm)) - y3 (position (rightHand vm));
             dz = z3 (position (leftHand vm)) - z3 (position (rightHand vm));
             currentDistance = sqrt (dx * dx + dy * dy + dz * dz);
             smoothingFactor = 0.3;
             smoothed = handsDistance vm * (1 - smoothingFactor) + currentDistance * smoothingFactor;
             minDistance = 0.15;
             maxDistance = 0.8;
             normalizedDistance = (smoothed - minDistance) / (maxDistance - minDistance)
         in vm\<lparr> handsDetectedBoth := True,
                handsDistance := max 0 (min 1 normalizedDistance) \<rparr>)
      else vm\<lparr> handsDetectedBoth := False \<rparr>)"

text \<open>One iteration of the loop over \<^verbatim>\<open>results.landmarks\<close> (lines 115-119).\<close>

definition applyDetection :: "VisionManager \<Rightarrow> detection \<Rightarrow> VisionManager" where
  "applyDetection vm d =
     (if categoryName d = ''Right''
      then vm\<lparr> rightHand := updateHandData ((rightHand vm)\<lparr> detected := True \<rparr>)
                                (landmarks d) (perfNow d) \<rparr>
      else vm\<lparr> leftHand := updateHandData ((leftHand vm)\<lparr> detected := True \<rparr>)
                                (landmarks d) (perfNow d) \<rparr>)"

text \<open>
  \<^verbatim>\<open>update()\<close>: \<open>currentTime\<close> is \<^verbatim>\<open>video.currentTime\<close> and \<open>results\<close> is what
  \<^verbatim>\<open>detectForVideo\<close> returns for the frame. The call returns at once while the
  landmarker is not loaded or the webcam has not delivered data, and does nothing when the
  video frame is the one already processed.
\<close>

definition update :: "VisionManager \<Rightarrow> real \<Rightarrow> detection list \<Rightarrow> VisionManager" where
  "update vm currentTime results =
     (if \<not> handLandmarker vm \<or> \<not> isWebcamRunning vm then vm
      else if currentTime \<noteq> lastVideoTime vm then
        (let vm1 = vm\<lparr> lastVideoTime := currentTime,
                       leftHand := (leftHand vm)\<lparr> detected := False \<rparr>,
                       rightHand := (rightHand vm)\<lparr> detected := False \<rparr> \<rparr>;
             vm2 = foldl applyDetection vm1 results;
             vm3 = (if \<not> detected (leftHand vm2)
                    then vm2\<lparr> leftHand := resetHand (leftHand vm2) \<rparr> else vm2);
             vm4 = (if \<not> detected (rightHand vm3)
                    then vm3\<lparr> rightHand := resetHand (rightHand vm3) \<rparr> else vm3)
         in calculateHandsDistance vm4)
      else vm)"


section \<open>ExplosionSystem.ts\<close>

text \<open>
  The particle arrays of the explosion are filled from \<^verbatim>\<open>Math.random()\<close> and only feed
  the renderer. The model keeps the \<^verbatim>\<open>active\<close> flag and counts the calls of
  \<^verbatim>\<open>explode()\<close>, which is the observable "explode" trigger; \<^verbatim>\<open>update()\<close> of the
  explosion system moves particles only and leaves both unchanged.
\<close>

record ExplosionSystem =
  active :: bool
  explodeCalls :: nat

definition newExplosionSystem :: ExplosionSystem where
  "newExplosionSystem = \<lparr> active = False, explodeCalls = 0 \<rparr>"

definition explode :: "ExplosionSystem \<Rightarrow> ExplosionSystem" where
  "explode es = es\<lparr> active := True, explodeCalls := Suc (explodeCalls es) \<rparr>"

definition ExplosionSystem_update :: "ExplosionSystem \<Rightarrow> ExplosionSystem" where
  "ExplosionSystem_update es = es"

section \<open>PhotoSystem (the class at lines 278-569 of UIManager.ts)\<close>

datatype LayoutState = CRYSTAL_BALL | SPHERE | DETAIL

datatype quat = Quat (qx: real) (qy: real) (qz: real) (qw: real)

record PhotoTransform =
  position :: vec3
  rotation :: quat
  scale :: vec3

text \<open>
  The operations of the three.js library whose code is not part of the repository are
  parameters of the model: \<^verbatim>\<open>Vector3.applyEuler\<close>, the quaternion an
  \<^verbatim>\<open>Object3D\<close> at a position gets from \<^verbatim>\<open>lookAt\<close> of a target,
  \<^verbatim>\<open>Quaternion.slerp\<close> and \<^verbatim>\<open>Quaternion.setFromEuler\<close>.
\<close>

record three =
  applyEuler :: "vec3 \<Rightarrow> vec3 \<Rightarrow> vec3"
  lookAt :: "vec3 \<Rightarrow> vec3 \<Rightarrow> quat"
  slerp :: "quat \<Rightarrow> quat \<Rightarrow> real \<Rightarrow> quat"
  setFromEuler :: "vec3 \<Rightarrow> quat"

definition multiplyScalar :: "vec3 \<Rightarrow> real \<Rightarrow> vec3" where
  "multiplyScalar v s = Vec3 (x3 v * s) (y3 v * s) (z3 v * s)"

definition lerp :: "vec3 \<Rightarrow> vec3 \<Rightarrow> real \<Rightarrow> vec3" where
  "lerp a v alpha =
     Vec3 (x3 a + (x3 v - x3 a) * alpha) (y3 a + (y3 v - y3 a) * alpha)
          (z3 a + (z3 v - z3 a) * alpha)"

record PhotoSystem =
  count :: nat
  state :: LayoutState
  explosionSystem :: ExplosionSystem
  targetTransforms :: "PhotoTransform list"
  currentTransforms :: "PhotoTransform list"
  spherePositions :: "vec3 list"
  selectedIndex :: int
  hoveredIndex :: int
  hoverIntensities :: "real list"
  aspectRatios :: "real list"
  sphereRotation :: vec3
  sphereScale :: real

definition BASE_RADIUS :: real where "BASE_RADIUS = 15"
definition BASE_PHOTO_SCALE :: real where "BASE_PHOTO_SCALE = 3.1"
definition BASE_HEIGHT :: real where "BASE_HEIGHT = 1.5"

definition initialTransform :: PhotoTransform where
  "initialTransform = \<lparr> position = Vec3 0 0 0, rotation = Quat 0 0 0 1, scale = Vec3 1 1 1 \<rparr>"

text \<open>
  The Fibonacci sphere. For \<open>n = 1\<close> the JavaScript divides 0 by 0 (NaN) where HOL
  returns 0; the application constructs the system with the default of 130 photos.
\<close>

definition generateSphereLayout :: "nat \<Rightarrow> vec3 list" where
  "generateSphereLayout n =
     map (\<lambda>i. let phi = pi * (3 - sqrt 5);
                   y = 1 - (real i / (real n - 1)) * 2;
                   r = sqrt (1 - y * y);
                   theta = phi * real i
               in Vec3 (cos theta * r) y (sin theta * r)) [0..<n]"

definition setCrystalBallLayout :: "PhotoSystem \<Rightarrow> PhotoSystem" where
  "setCrystalBallLayout ps = ps\<lparr> state := CRYSTAL_BALL, selectedIndex := -1, sphereScale := 0.2 \<rparr>"

definition newPhotoSystem :: "nat \<Rightarrow> PhotoSystem" where
  "newPhotoSystem n =
     setCrystalBallLayout
       \<lparr> count = n, state = CRYSTAL_BALL, explosionSystem = newExplosionSystem,
         targetTransforms = replicate n initialTransform,
         currentTransforms = replicate n initialTransform,
         spherePositions = generateSphereLayout n,
         selectedIndex = -1, hoveredIndex = -1,
         hoverIntensities = replicate n 0, aspectRatios = replicate n 0.8,
         sphereRotation = Vec3 0 0 0, sphereScale = 1.0 \<rparr>"

text \<open>
  The texture loader's callback for photo \<open>i\<close> with an image of the given size. The
  constructor registers it for the indices below \<open>count\<close> only.
\<close>

definition textureLoaded :: "PhotoSystem \<Rightarrow> nat \<Rightarrow> real \<Rightarrow> real \<Rightarrow> PhotoSystem" where
  "textureLoaded ps i width height =
     (if height > 0 then ps\<lparr> aspectRatios := (aspectRatios ps)[i := width / height] \<rparr> else ps)"

subsection \<open>State transitions\<close>

definition setSphereLayout :: "PhotoSystem \<Rightarrow> PhotoSystem" where
  "setSphereLayout ps =
     (let ps1 = (if state ps = CRYSTAL_BALL
                 then ps\<lparr> explosionSystem := explode (explosionSystem ps) \<rparr> else ps)
      in ps1\<lparr> state := SPHERE, selectedIndex := -1, sphereScale := 1.0 \<rparr>)"

text \<open>The loop of \<^verbatim>\<open>setDetailLayout\<close> that parks every other photo (lines 433-439).\<close>

definition parkOther :: "vec3 list \<Rightarrow> nat \<Rightarrow> nat \<Rightarrow> PhotoTransform list \<Rightarrow> PhotoTransform list" where
  "parkOther sphere index i ts =
     (if i = index then ts
      else ts[i := (ts ! i)\<lparr> position := multiplyScalar (sphere ! i) (BASE_RADIUS * 2.0),
                              scale := Vec3 0 0 0 \<rparr>])"

definition setDetailLayout :: "three \<Rightarrow> PhotoSystem \<Rightarrow> int \<Rightarrow> PhotoSystem" where
  "setDetailLayout L ps index =
     (if index < 0 \<or> index \<ge> int (count ps) then ps
      else
        (let k = nat index;
             detailScale = 36;
             ar = aspectRatios ps ! k;
             centerTarget = (targetTransforms ps ! k)
                \<lparr> position := Vec3 0 0 32, rotation := setFromEuler L (Vec3 0 0 0),
                  scale := Vec3 (detailScale * ar) detailScale 1 \<rparr>;
             ts = (targetTransforms ps)[k := centerTarget]
         in ps\<lparr> state := DETAIL, selectedIndex := index,
                targetTransforms := fold (parkOther (spherePositions ps) k) [0..<count ps] ts \<rparr>))"

subsection \<open>Interaction\<close>

definition setHovered :: "PhotoSystem \<Rightarrow> int \<Rightarrow> PhotoSystem" where
  "setHovered ps index = (if state ps \<noteq> SPHERE then ps else ps\<lparr> hoveredIndex := index \<rparr>)"

definition rotateSphere :: "PhotoSystem \<Rightarrow> real \<Rightarrow> real \<Rightarrow> PhotoSystem" where
  "rotateSphere ps deltaX deltaY =
     ps\<lparr> sphereRotation :=
           Vec3 (x3 (sphereRotation ps) + deltaY) (y3 (sphereRotation ps) + deltaX)
                (z3 (sphereRotation ps)) \<rparr>"

definition nextPhoto :: "three \<Rightarrow> PhotoSystem \<Rightarrow> PhotoSystem" where
  "nextPhoto L ps =
     (if state ps \<noteq> DETAIL then ps
      else (let next = selectedIndex ps + 1
            in setDetailLayout L ps (if next \<ge> int (count ps) then 0 else next)))"

definition prevPhoto :: "three \<Rightarrow> PhotoSystem \<Rightarrow> PhotoSystem" where
  "prevPhoto L ps =
     (if state ps \<noteq> DETAIL then ps
      else (let prev = selectedIndex ps - 1
            in setDetailLayout L ps (if prev < 0 then int (count ps) - 1 else prev)))"

definition setExpansion :: "PhotoSystem \<Rightarrow> real \<Rightarrow> PhotoSystem" where
  "setExpansion ps factor =
     (if state ps = SPHERE then ps\<lparr> sphereScale := 0.5 + factor * 2.05 \<rparr> else ps)"

subsection \<open>PhotoSystem.update\<close>

text \<open>
  The body of the loop over the photos (lines 493-567), for photo \<open>i\<close>. The last three
  statements of the body copy the current transform to the mesh of the renderer; the
  meshes are not part of the model.
\<close>

definition updateItem :: "three \<Rightarrow> real \<Rightarrow> nat \<Rightarrow> PhotoSystem \<Rightarrow> PhotoSystem" where
  "updateItem L time i ps =
     (let lerpFactor = 0.05;
          ar = aspectRatios ps ! i;
          ps1 =
            (if state ps = SPHERE \<or> state ps = CRYSTAL_BALL then
               (let r = BASE_RADIUS * sphereScale ps;
                    basePos = spherePositions ps ! i;
                    p0 = applyEuler L (multiplyScalar basePos r) (sphereRotation ps);
                    isHovered = (int i = hoveredIndex ps \<and> state ps = SPHERE);
                    targetIntensity = (if isHovered then 1.0 else 0.0);
                    hoverEffect = hoverIntensities ps ! i
                                  + (targetIntensity - hoverIntensities ps ! i) * 0.15;
                    p = (if hoverEffect > 0.001
                         then multiplyScalar p0 (1.0 + 0.1 * hoverEffect) else p0);
                    s = BASE_PHOTO_SCALE * sphereScale ps;
                    baseH = BASE_HEIGHT * s;
                    scaleMult = (if hoverEffect > 0.001 then 1.0 + 0.2 * hoverEffect else 1.0);
                    finalH = baseH * scaleMult;
                    finalW = finalH * ar
                in ps\<lparr> hoverIntensities := (hoverIntensities ps)[i := hoverEffect],
                       targetTransforms := (targetTransforms ps)
                         [i := \<lparr> position = p, rotation = lookAt L p (multiplyScalar p 2),
                                scale = Vec3 finalW finalH 1 \<rparr>] \<rparr>)
             else ps);
          ps2 =
            (if state ps1 = DETAIL \<and> int i = selectedIndex ps1 then
               (let t = targetTransforms ps1 ! i
                in ps1\<lparr> targetTransforms := (targetTransforms ps1)
                     [i := t\<lparr> position := Vec3 (x3 (position t)) (sin (time * 2) * 0.5)
                                                (z3 (position t)) \<rparr>] \<rparr>)
             else ps1);
          current = currentTransforms ps2 ! i;
          target = targetTransforms ps2 ! i
      in ps2\<lparr> currentTransforms := (currentTransforms ps2)
             [i := \<lparr> position = lerp (position current) (position target) lerpFactor,
                    rotation = slerp L (rotation current) (rotation target) lerpFactor,
                    scale = lerp (scale current) (scale target) lerpFactor \<rparr>] \<rparr>)"

text \<open>\<open>dateNow\<close> is the value of \<^verbatim>\<open>Date.now()\<close> at the call.\<close>

definition PhotoSystem_update :: "three \<Rightarrow> real \<Rightarrow> PhotoSystem \<Rightarrow> PhotoSystem" where
  "PhotoSystem_update L dateNow ps =
     (let time = dateNow * 0.001;
          rot = sphereRotation ps;
          ps1 = ps\<lparr> explosionSystem := ExplosionSystem_update (explosionSystem ps),
                    sphereRotation :=
                      (if state ps = CRYSTAL_BALL then Vec3 (x3 rot) (y3 rot + 0.05) (sin time * 0.1)
                       else if state ps = SPHERE then Vec3 (x3 rot) (y3 rot + 0.002) (z3 rot)
                       else rot) \<rparr>
      in fold (updateItem L time) [0..<count ps1] ps1)"

section \<open>main.ts: the frame callback\<close>

text \<open>
  What one call of the render-loop callback reads from outside: the video time and the
  landmarker's results (for \<^verbatim>\<open>visionManager.update()\<close>), the \<^verbatim>\<open>userData.id\<close> of the
  first mesh the raycaster intersects (\<open>None\<close> when it intersects nothing), and
  \<^verbatim>\<open>Date.now()\<close>.
\<close>

record frameInput =
  currentTime :: real
  results :: "detection list"
  rayHit :: "nat option"
  dateNow :: real

record app =
  visionManager :: VisionManager
  photoSystem :: PhotoSystem

definition newApp :: "nat \<Rightarrow> app" where
  "newApp n = \<lparr> visionManager = newVisionManager, photoSystem = newPhotoSystem n \<rparr>"

text \<open>Lines 82-125: the branch for the SPHERE state.\<close>

definition sphereMode :: "three \<Rightarrow> VisionManager \<Rightarrow> int \<Rightarrow> PhotoSystem \<Rightarrow> PhotoSystem" where
  "sphereMode L vm hovered ps =
     (let lh = leftHand vm; rh = rightHand vm;
          ps1 = (if handsDetectedBoth vm then setExpansion ps (handsDistance vm) else ps)
      in if detected rh then
           (let ps2 = (if \<not> isPinching rh
                       then rotateSphere ps1 (x2 (rotationSpeed rh) * 0.05)
                                             (y2 (rotationSpeed rh) * 0.05)
                       else ps1);
                ps3 = (if gesture rh = DOUBLE_PINCH \<and> hovered \<noteq> -1
                       then setDetailLayout L ps2 hovered else ps2)
            in if gesture rh = PINCH_START \<and> hovered \<noteq> -1
               then setDetailLayout L ps3 hovered else ps3)
         else if \<not> detected lh \<or> pinchDistance lh < 0.2 then rotateSphere ps1 0.002 0
         else ps1)"

text \<open>Lines 128-144: the branch for the DETAIL state.\<close>

definition detailMode :: "three \<Rightarrow> VisionManager \<Rightarrow> PhotoSystem \<Rightarrow> PhotoSystem" where
  "detailMode L vm ps =
     (let rh = rightHand vm
      in if detected rh then
           (let ps1 = (if gesture rh = SWIPE_LEFT then nextPhoto L ps
                       else if gesture rh = SWIPE_RIGHT then prevPhoto L ps
                       else ps)
            in if gesture rh = FIST then setSphereLayout ps1 else ps1)
         else ps)"

text \<open>
  Lines 54-144: the raycast for the hovered photo and the interaction logic; \<open>hit\<close> is
  the raycaster's first intersection.
\<close>

definition interaction :: "three \<Rightarrow> VisionManager \<Rightarrow> nat option \<Rightarrow> PhotoSystem \<Rightarrow> PhotoSystem" where
  "interaction L vm hit ps =
     (let lh = leftHand vm; rh = rightHand vm;
          hovered = (if detected rh \<and> state ps = SPHERE
                     then (case hit of Some i \<Rightarrow> int i | None \<Rightarrow> -1) else -1);
          ps1 = setHovered ps hovered
      in if state ps1 = CRYSTAL_BALL then
           (if gesture lh = PINCH_START \<or> gesture rh = PINCH_START
            then setSphereLayout ps1 else ps1)
         else if state ps1 = SPHERE then sphereMode L vm hovered ps1
         else if state ps1 = DETAIL then detailMode L vm ps1
         else ps1)"

definition frame :: "three \<Rightarrow> app \<Rightarrow> frameInput \<Rightarrow> app" where
  "frame L s inp =
     (let vm = update (visionManager s) (currentTime inp) (results inp)
      in \<lparr> visionManager = vm,
           photoSystem = PhotoSystem_update L (dateNow inp)
                           (interaction L vm (rayHit inp) (photoSystem s)) \<rparr>)"

text \<open>
  Everything that happens to the application after construction: the landmarker finishes
  loading, the webcam delivers its first data, a texture arrives, or a frame is rendered.
\<close>

datatype event =
  LandmarkerLoaded
  | WebcamLoadedData
  | TextureLoaded nat real real
  | Frame frameInput

fun step :: "three \<Rightarrow> app \<Rightarrow> event \<Rightarrow> app" where
  "step L s LandmarkerLoaded = s\<lparr> visionManager := (visionManager s)\<lparr> handLandmarker := True \<rparr> \<rparr>"
| "step L s WebcamLoadedData = s\<lparr> visionManager := (visionManager s)\<lparr> isWebcamRunning := True \<rparr> \<rparr>"
| "step L s (TextureLoaded i w h) = s\<lparr> photoSystem := textureLoaded (photoSystem s) i w h \<rparr>"
| "step L s (Frame inp) = frame L s inp"

definition run :: "three \<Rightarrow> app \<Rightarrow> event list \<Rightarrow> app" where
  "run L s evs = foldl (step L) s evs"

section \<open>Vocabulary of the properties\<close>

text \<open>
  A call of \<^verbatim>\<open>update()\<close> processes a video frame when the landmarker is loaded, the
  webcam runs and the video time has changed.
\<close>

definition processes :: "VisionManager \<Rightarrow> real \<Rightarrow> bool" where
  "processes vm t = (handLandmarker vm \<and> isWebcamRunning vm \<and> t \<noteq> lastVideoTime vm)"

text \<open>The condition of line 208 as a function of the landmarks.\<close>

definition currentlyPinching :: "landmarks \<Rightarrow> bool" where
  "currentlyPinching lm = (remapPinch (rawPinchDist lm) < 0.1)"

text \<open>
  The two hand slots are addressed by a flag (\<open>True\<close> for the right hand);
  \<open>slotDetections\<close> are the entries of the results the loop of \<^verbatim>\<open>update()\<close> sends to
  a slot, in order.
\<close>

definition handOf :: "bool \<Rightarrow> VisionManager \<Rightarrow> HandData" where
  "handOf right vm = (if right then rightHand vm else leftHand vm)"

definition slotDetections :: "bool \<Rightarrow> detection list \<Rightarrow> detection list" where
  "slotDetections right ds = filter (\<lambda>d. (categoryName d = ''Right'') = right) ds"

definition redetect :: "HandData \<Rightarrow> detection \<Rightarrow> HandData" where
  "redetect h d = updateHandData (h\<lparr> detected := True \<rparr>) (landmarks d) (perfNow d)"

text \<open>What a processed frame leaves in a hand slot, given the detections sent to it.\<close>

definition slotAfter :: "HandData \<Rightarrow> detection list \<Rightarrow> HandData" where
  "slotAfter h xs =
     (if xs = [] then resetHand (h\<lparr> detected := False \<rparr>)
      else redetect (foldl redetect (h\<lparr> detected := False \<rparr>) (butlast xs)) (last xs))"

text \<open>The smoothing and remapping of \<^verbatim>\<open>calculateHandsDistance\<close> as one expression.\<close>

definition blendDistance :: "real \<Rightarrow> vec3 \<Rightarrow> vec3 \<Rightarrow> real" where
  "blendDistance h p q =
     max 0 (min 1 ((h * (1 - 0.3)
        + sqrt ((x3 p - x3 q) * (x3 p - x3 q) + (y3 p - y3 q) * (y3 p - y3 q)
                + (z3 p - z3 q) * (z3 p - z3 q)) * 0.3 - 0.15) / (0.8 - 0.15)))"

text \<open>The vision manager's share of every event, and its state after a history.\<close>

fun visionStep :: "VisionManager \<Rightarrow> event \<Rightarrow> VisionManager" where
  "visionStep vm LandmarkerLoaded = vm\<lparr> handLandmarker := True \<rparr>"
| "visionStep vm WebcamLoadedData = vm\<lparr> isWebcamRunning := True \<rparr>"
| "visionStep vm (TextureLoaded i w h) = vm"
| "visionStep vm (Frame inp) = update vm (currentTime inp) (results inp)"

definition visionRun :: "VisionManager \<Rightarrow> event list \<Rightarrow> VisionManager" where
  "visionRun vm evs = foldl visionStep vm evs"

text \<open>Invariants of the reachable states.\<close>

definition handRest :: "HandData \<Rightarrow> bool" where
  "handRest h =
     ((\<not> detected h \<longrightarrow> velocity h = Vec2 0 0 \<and> rotationSpeed h = Vec2 0 0 \<and> pinchDistance h = 0)
      \<and> (gesture h = PINCH_START \<or> gesture h = DOUBLE_PINCH \<longrightarrow> isPinching h)
      \<and> 0 \<le> pinchDistance h \<and> pinchDistance h \<le> 1)"

definition visionInv :: "VisionManager \<Rightarrow> bool" where
  "visionInv vm =
     (handRest (leftHand vm) \<and> handRest (rightHand vm)
      \<and> handsDetectedBoth vm = (detected (leftHand vm) \<and> detected (rightHand vm))
      \<and> 0 \<le> handsDistance vm \<and> handsDistance vm \<le> 1)"

definition hoverBounded :: "PhotoSystem \<Rightarrow> bool" where
  "hoverBounded ps = (\<forall>h \<in> set (hoverIntensities ps). 0 \<le> h \<and> h \<le> 1)"

text \<open>The number of steps of a history that take the layout from CRYSTAL_BALL to SPHERE.\<close>

primrec transitions :: "three \<Rightarrow> app \<Rightarrow> event list \<Rightarrow> nat" where
  "transitions L s [] = 0"
| "transitions L s (ev # evs) =
     (if state (photoSystem s) = CRYSTAL_BALL \<and> state (photoSystem (step L s ev)) = SPHERE
      then 1 else 0) + transitions L (step L s ev) evs"

section \<open>Example inputs\<close>

text \<open>
  Closed instances need some value for the library parameter; \<open>flatThree\<close> is one (no
  rotation, identity orientation). Every theorem below is proved for all libraries.
\<close>

definition flatThree :: three where
  "flatThree = \<lparr> applyEuler = (\<lambda>v e. v), lookAt = (\<lambda>p t. Quat 0 0 0 1),
                 slerp = (\<lambda>a b t. b), setFromEuler = (\<lambda>e. Quat 0 0 0 1) \<rparr>"

text \<open>
  Hand poses in image coordinates, centred at the horizontal position \<open>cx\<close>: the wrist at
  height 0.8, the knuckles at 0.35 (so that the palm is at height 0.5), the fingertips
  stretched out (\<open>openHand\<close>, thumb 0.2 away from the index tip), with thumb and index tip
  touching (\<open>pinchHand\<close>), or curled to 0.1 from the wrist with the thumb on them
  (\<open>fistHand\<close>).
\<close>

definition pose :: "vec3 \<Rightarrow> vec3 \<Rightarrow> vec3 \<Rightarrow> vec3 \<Rightarrow> landmarks" where
  "pose wrist knuckles thumbTip fingerTips =
     (\<lambda>i. if i = 0 then wrist else if i = 4 then thumbTip
          else if i = 8 \<or> i = 12 \<or> i = 16 \<or> i = 20 then fingerTips else knuckles)"

definition openHand :: "real \<Rightarrow> landmarks" where
  "openHand cx = pose (Vec3 cx 0.8 0) (Vec3 cx 0.35 0) (Vec3 (cx - 0.2) 0.4 0) (Vec3 cx 0.4 0)"

definition pinchHand :: "real \<Rightarrow> landmarks" where
  "pinchHand cx = pose (Vec3 cx 0.8 0) (Vec3 cx 0.35 0) (Vec3 cx 0.4 0) (Vec3 cx 0.4 0)"

definition fistHand :: "real \<Rightarrow> landmarks" where
  "fistHand cx = pose (Vec3 cx 0.8 0) (Vec3 cx 0.35 0) (Vec3 cx 0.7 0) (Vec3 cx 0.7 0)"

definition seen :: "string \<Rightarrow> landmarks \<Rightarrow> real \<Rightarrow> detection" where
  "seen name lm now = \<lparr> landmarks = lm, categoryName = name, perfNow = now \<rparr>"

definition videoFrame :: "real \<Rightarrow> detection list \<Rightarrow> nat option \<Rightarrow> frameInput" where
  "videoFrame t ds hit = \<lparr> currentTime = t, results = ds, rayHit = hit, dateNow = 0 \<rparr>"

definition fistFrame :: frameInput where
  "fistFrame = videoFrame 1 [seen ''Right'' (fistHand 0.5) 5000] None"

definition releaseFrame :: frameInput where
  "releaseFrame = videoFrame 2 [seen ''Right'' (openHand 0.5) 5100] None"

definition repinchFrame :: frameInput where
  "repinchFrame = videoFrame 3 [seen ''Right'' (pinchHand 0.5) 5200] None"

definition emptyFrame :: frameInput where
  "emptyFrame = videoFrame 2 [] None"

definition fistAgainFrame :: frameInput where
  "fistAgainFrame = videoFrame 2 [seen ''Right'' (fistHand 0.5) 5033] None"

definition apartFrame :: "real \<Rightarrow> frameInput" where
  "apartFrame t = videoFrame t [seen ''Left'' (openHand 0.1) (5000 + t),
                                seen ''Right'' (openHand 0.9) (5001 + t)] None"

definition togetherFrame :: frameInput where
  "togetherFrame = videoFrame 3 [seen ''Left'' (openHand 0.5) 5100,
                                seen ''Right'' (openHand 0.5) 5101] None"

definition rightOnlyFrame :: frameInput where
  "rightOnlyFrame = videoFrame 2 [seen ''Right'' (openHand 0.9) 5100] None"

definition pinchFrame :: frameInput where
  "pinchFrame = videoFrame 1 [seen ''Right'' (pinchHand 0.5) 5000] None"

definition steerFrame :: "nat option \<Rightarrow> frameInput" where
  "steerFrame hit = videoFrame 2 [seen ''Right'' (openHand 0.5) 5100] hit"

definition leftPinchFrame :: frameInput where
  "leftPinchFrame = videoFrame 2 [seen ''Left'' (pinchHand 0.5) 5100] None"

text \<open>Histories: the camera comes up, then frames arrive.\<close>

definition cameraOn :: "event list" where
  "cameraOn = [LandmarkerLoaded, WebcamLoadedData]"

definition fistRun :: "event list" where
  "fistRun = cameraOn @ [Frame fistFrame]"

definition releaseRun :: "event list" where
  "releaseRun = fistRun @ [Frame releaseFrame]"

definition doublePinchRun :: "event list" where
  "doublePinchRun = releaseRun @ [Frame repinchFrame]"

definition apartRun :: "event list" where
  "apartRun = cameraOn @ [Frame (apartFrame 1)]"

definition apartRun2 :: "event list" where
  "apartRun2 = apartRun @ [Frame (apartFrame 2)]"

definition sphereRun :: "event list" where
  "sphereRun = cameraOn @ [Frame pinchFrame]"

section \<open>Lemmas about the vision manager and the photo system\<close>

lemma trackHand_simps [simp]:
  "detected (trackHand h lm) = detected h"
  "isPinching (trackHand h lm) = isPinching h"
  "gesture (trackHand h lm) = gesture h"
  "lastPinchTime (trackHand h lm) = lastPinchTime h"
  "lastGestureTime (trackHand h lm) = lastGestureTime h"
  "pinchDistance (trackHand h lm) = remapPinch (rawPinchDist lm)"
  by (simp_all add: trackHand_def Let_def)

lemma gesture_classifyPinch:
  "gesture (classifyPinch h now) =
     (if pinchDistance h < 0.1 \<and> \<not> isPinching h
      then (if now - lastPinchTime h < 400 then DOUBLE_PINCH else PINCH_START)
      else if \<not> pinchDistance h < 0.1 \<and> isPinching h then PINCH_END else NONE)"
  by (simp add: classifyPinch_def Let_def)

lemma isPinching_classifyPinch: "isPinching (classifyPinch h now) = (pinchDistance h < 0.1)"
  by (auto simp add: classifyPinch_def Let_def)

lemma gesture_classifyFist:
  "gesture (classifyFist h lm) = (if closedFingers lm \<ge> 3 then FIST else gesture h)"
  by (simp add: classifyFist_def)

lemma gesture_classifySwipe_keep:
  "gesture h \<noteq> NONE \<Longrightarrow> gesture (classifySwipe h lm now) = gesture h"
  by (simp add: classifySwipe_def)

lemma gesture_classifySwipe_range:
  "gesture h = NONE \<Longrightarrow>
     gesture (classifySwipe h lm now) \<in> {NONE, SWIPE_LEFT, SWIPE_RIGHT, SWIPE_UP, SWIPE_DOWN}"
  by (simp add: classifySwipe_def Let_def)

lemma updateHandData_fist:
  "closedFingers lm \<ge> 3 \<Longrightarrow> gesture (updateHandData h lm now) = FIST"
  by (simp add: updateHandData_def gesture_classifySwipe_keep gesture_classifyFist)

lemma gesture_cases:
  "(let g = gesture (updateHandData hand lm now) in
     if closedFingers lm \<ge> 3 then g = FIST
     else if currentlyPinching lm \<and> \<not> isPinching hand
          then g = (if now - lastPinchTime hand < 400 then DOUBLE_PINCH else PINCH_START)
     else if \<not> currentlyPinching lm \<and> isPinching hand then g = PINCH_END
     else g \<in> {NONE, SWIPE_LEFT, SWIPE_RIGHT, SWIPE_UP, SWIPE_DOWN})"
proof -
  let ?p = "classifyFist (classifyPinch (trackHand hand lm) now) lm"
  have g: "gesture ?p =
     (if closedFingers lm \<ge> 3 then FIST
      else if currentlyPinching lm \<and> \<not> isPinching hand
           then (if now - lastPinchTime hand < 400 then DOUBLE_PINCH else PINCH_START)
      else if \<not> currentlyPinching lm \<and> isPinching hand then PINCH_END else NONE)"
    by (simp add: gesture_classifyFist gesture_classifyPinch currentlyPinching_def)
  show ?thesis
  proof (cases "gesture ?p = NONE")
    case True
    from gesture_classifySwipe_range [OF True, of lm now] True g show ?thesis
      by (auto simp add: updateHandData_def Let_def split: if_splits)
  next
    case False
    from gesture_classifySwipe_keep [OF False, of lm now] False g show ?thesis
      by (auto simp add: updateHandData_def Let_def split: if_splits)
  qed
qed

lemma classify_detected [simp]:
  "detected (classifyPinch h now) = detected h"
  "detected (classifyFist h lm) = detected h"
  "detected (classifySwipe h lm now) = detected h"
  by (simp_all add: classifyPinch_def classifyFist_def classifySwipe_def Let_def)

lemma detected_updateHandData [simp]: "detected (updateHandData h lm now) = detected h"
  by (simp add: updateHandData_def)

lemma detected_redetect [simp]: "detected (redetect h d)"
  by (simp add: redetect_def)

lemma handOf_applyDetection:
  "handOf r (applyDetection vm d) =
     (if (categoryName d = ''Right'') = r then redetect (handOf r vm) d else handOf r vm)"
  by (simp add: handOf_def applyDetection_def redetect_def)

lemma handOf_foldl:
  "handOf r (foldl applyDetection vm ds) = foldl redetect (handOf r vm) (slotDetections r ds)"
  by (induction ds arbitrary: vm) (simp_all add: slotDetections_def handOf_applyDetection)

lemma applyDetection_other [simp]:
  "handLandmarker (applyDetection vm d) = handLandmarker vm"
  "isWebcamRunning (applyDetection vm d) = isWebcamRunning vm"
  "lastVideoTime (applyDetection vm d) = lastVideoTime vm"
  "handsDistance (applyDetection vm d) = handsDistance vm"
  "handsDetectedBoth (applyDetection vm d) = handsDetectedBoth vm"
  by (simp_all add: applyDetection_def)

lemma foldl_applyDetection_other [simp]:
  "handLandmarker (foldl applyDetection vm ds) = handLandmarker vm"
  "isWebcamRunning (foldl applyDetection vm ds) = isWebcamRunning vm"
  "lastVideoTime (foldl applyDetection vm ds) = lastVideoTime vm"
  "handsDistance (foldl applyDetection vm ds) = handsDistance vm"
  "handsDetectedBoth (foldl applyDetection vm ds) = handsDetectedBoth vm"
  by (induction ds arbitrary: vm) simp_all

lemma foldl_redetect:
  "foldl redetect h xs = (if xs = [] then h else redetect (foldl redetect h (butlast xs)) (last xs))"
  by (induction xs rule: rev_induct) simp_all

lemma hands_calc [simp]:
  "leftHand (calculateHandsDistance vm) = leftHand vm"
  "rightHand (calculateHandsDistance vm) = rightHand vm"
  by (simp_all add: calculateHandsDistance_def Let_def)

lemma handOf_update:
  assumes "processes vm t"
  shows "handOf r (update vm t ds) = slotAfter (handOf r vm) (slotDetections r ds)"
proof -
  let ?vm1 = "vm\<lparr> lastVideoTime := t, leftHand := (leftHand vm)\<lparr> detected := False \<rparr>,
                    rightHand := (rightHand vm)\<lparr> detected := False \<rparr> \<rparr>"
  let ?vm2 = "foldl applyDetection ?vm1 ds"
  have h1: "handOf r ?vm1 = (handOf r vm)\<lparr> detected := False \<rparr>"
    by (simp add: handOf_def)
  have h2: "handOf r ?vm2 = foldl redetect ((handOf r vm)\<lparr> detected := False \<rparr>) (slotDetections r ds)"
    by (simp only: handOf_foldl h1)
  have d2: "detected (handOf r ?vm2) = (slotDetections r ds \<noteq> [])"
    by (subst h2, subst foldl_redetect) simp
  have "handOf r (update vm t ds) =
          (if \<not> detected (handOf r ?vm2) then resetHand (handOf r ?vm2) else handOf r ?vm2)"
    using assms by (cases r) (simp_all add: update_def processes_def Let_def handOf_def)
  then show ?thesis
    unfolding d2 by (simp add: slotAfter_def h2 foldl_redetect [of _ "slotDetections r ds"])
qed

lemma detected_slotAfter: "detected (slotAfter h xs) = (xs \<noteq> [])"
  by (simp add: slotAfter_def resetHand_def)

lemma update_skip: "\<not> processes vm t \<Longrightarrow> update vm t ds = vm"
  by (auto simp add: update_def processes_def)

lemma remapPinch_range: "0 \<le> remapPinch d" "remapPinch d \<le> 1"
  by (simp_all add: remapPinch_def)

lemma classify_pinchDistance [simp]:
  "pinchDistance (classifyPinch h now) = pinchDistance h"
  "pinchDistance (classifyFist h lm) = pinchDistance h"
  "pinchDistance (classifySwipe h lm now) = pinchDistance h"
  by (simp_all add: classifyPinch_def classifyFist_def classifySwipe_def Let_def)

lemma classify_isPinching [simp]:
  "isPinching (classifyFist h lm) = isPinching h"
  "isPinching (classifySwipe h lm now) = isPinching h"
  by (simp_all add: classifyFist_def classifySwipe_def Let_def)

lemma pinchDistance_updateHandData [simp]:
  "pinchDistance (updateHandData h lm now) = remapPinch (rawPinchDist lm)"
  by (simp add: updateHandData_def)

lemma isPinching_updateHandData [simp]:
  "isPinching (updateHandData h lm now) = currentlyPinching lm"
  by (simp add: updateHandData_def isPinching_classifyPinch currentlyPinching_def)

lemma pinch_start_isPinching:
  "gesture (updateHandData h lm now) = PINCH_START \<or> gesture (updateHandData h lm now) = DOUBLE_PINCH
     \<Longrightarrow> isPinching (updateHandData h lm now)"
  using gesture_cases [of h lm now] by (auto simp add: Let_def split: if_splits)

lemma handRest_empty: "handRest createEmptyHandData"
  by (simp add: handRest_def createEmptyHandData_def)

lemma handRest_redetect: "handRest (redetect h d)"
  unfolding handRest_def redetect_def
  using pinch_start_isPinching [of "h\<lparr>detected := True\<rparr>" "landmarks d" "perfNow d"]
  by (simp add: remapPinch_range)

lemma handRest_slotAfter: "handRest h \<Longrightarrow> handRest (slotAfter h xs)"
  by (simp add: slotAfter_def handRest_redetect) (simp add: handRest_def resetHand_def)

lemma calc_distance:
  "handsDetectedBoth (calculateHandsDistance v) = (detected (leftHand v) \<and> detected (rightHand v))"
  "handsDistance (calculateHandsDistance v) =
     (if detected (leftHand v) \<and> detected (rightHand v)
      then blendDistance (handsDistance v) (HandData.position (leftHand v))
             (HandData.position (rightHand v))
      else handsDistance v)"
  by (simp_all add: calculateHandsDistance_def Let_def blendDistance_def)

lemma update_calc:
  assumes "processes vm t"
  shows "\<exists>v. update vm t ds = calculateHandsDistance v \<and> handsDistance v = handsDistance vm"
proof -
  let ?vm1 = "vm\<lparr> lastVideoTime := t, leftHand := (leftHand vm)\<lparr> detected := False \<rparr>,
                    rightHand := (rightHand vm)\<lparr> detected := False \<rparr> \<rparr>"
  let ?vm2 = "foldl applyDetection ?vm1 ds"
  let ?vm3 = "if \<not> detected (leftHand ?vm2)
              then ?vm2\<lparr> leftHand := resetHand (leftHand ?vm2) \<rparr> else ?vm2"
  let ?vm4 = "if \<not> detected (rightHand ?vm3)
              then ?vm3\<lparr> rightHand := resetHand (rightHand ?vm3) \<rparr> else ?vm3"
  have "update vm t ds = calculateHandsDistance ?vm4"
    using assms by (simp add: update_def processes_def Let_def)
  moreover have "handsDistance ?vm4 = handsDistance vm"
    by simp
  ultimately show ?thesis by blast
qed

lemma update_distance:
  assumes "processes vm t"
  shows "handsDetectedBoth (update vm t ds)
           = (detected (leftHand (update vm t ds)) \<and> detected (rightHand (update vm t ds)))"
    and "handsDistance (update vm t ds)
           = (if detected (leftHand (update vm t ds)) \<and> detected (rightHand (update vm t ds))
              then blendDistance (handsDistance vm) (HandData.position (leftHand (update vm t ds)))
                     (HandData.position (rightHand (update vm t ds)))
              else handsDistance vm)"
proof -
  from update_calc [OF assms, of ds] obtain v
    where v: "update vm t ds = calculateHandsDistance v" "handsDistance v = handsDistance vm"
    by blast
  show "handsDetectedBoth (update vm t ds)
           = (detected (leftHand (update vm t ds)) \<and> detected (rightHand (update vm t ds)))"
    by (simp only: v calc_distance hands_calc)
  show "handsDistance (update vm t ds)
           = (if detected (leftHand (update vm t ds)) \<and> detected (rightHand (update vm t ds))
              then blendDistance (handsDistance vm) (HandData.position (leftHand (update vm t ds)))
                     (HandData.position (rightHand (update vm t ds)))
              else handsDistance vm)"
    by (simp only: v calc_distance hands_calc)
qed

lemma blendDistance_range: "0 \<le> blendDistance h p q" "blendDistance h p q \<le> 1"
  by (simp_all add: blendDistance_def)

lemma visionInv_update: "visionInv vm \<Longrightarrow> visionInv (update vm t ds)"
proof (cases "processes vm t")
  case False
  then show "visionInv vm \<Longrightarrow> ?thesis" by (simp add: update_skip)
next
  case True
  assume inv: "visionInv vm"
  have l: "leftHand (update vm t ds) = slotAfter (leftHand vm) (slotDetections False ds)"
    using handOf_update [OF True, of False ds] by (simp add: handOf_def)
  have r: "rightHand (update vm t ds) = slotAfter (rightHand vm) (slotDetections True ds)"
    using handOf_update [OF True, of True ds] by (simp add: handOf_def)
  have "handRest (leftHand (update vm t ds))" "handRest (rightHand (update vm t ds))"
    using inv by (simp_all add: l r visionInv_def handRest_slotAfter)
  moreover have "0 \<le> handsDistance (update vm t ds)" "handsDistance (update vm t ds) \<le> 1"
    using inv by (simp_all add: update_distance [OF True] blendDistance_range visionInv_def)
  ultimately show ?thesis
    by (simp add: visionInv_def update_distance(1) [OF True])
qed

lemma visionInv_new: "visionInv newVisionManager"
  by (simp add: visionInv_def newVisionManager_def handRest_empty)
     (simp add: createEmptyHandData_def)

lemma visionInv_step: "visionInv vm \<Longrightarrow> visionInv (visionStep vm ev)"
  by (cases ev) (simp_all add: visionInv_update, simp_all add: visionInv_def)

lemma visionInv_foldl: "visionInv vm \<Longrightarrow> visionInv (foldl visionStep vm evs)"
  by (induction evs arbitrary: vm) (simp_all add: visionInv_step)

lemma visionInv_run: "visionInv (visionRun newVisionManager evs)"
  by (simp add: visionRun_def visionInv_foldl visionInv_new)

lemma updateItem_frame [simp]:
  "count (updateItem L time i ps) = count ps"
  "state (updateItem L time i ps) = state ps"
  "explosionSystem (updateItem L time i ps) = explosionSystem ps"
  "sphereRotation (updateItem L time i ps) = sphereRotation ps"
  "sphereScale (updateItem L time i ps) = sphereScale ps"
  "selectedIndex (updateItem L time i ps) = selectedIndex ps"
  "hoveredIndex (updateItem L time i ps) = hoveredIndex ps"
  by (simp_all add: updateItem_def Let_def)

lemma fold_updateItem_frame [simp]:
  "count (fold (updateItem L time) is ps) = count ps"
  "state (fold (updateItem L time) is ps) = state ps"
  "explosionSystem (fold (updateItem L time) is ps) = explosionSystem ps"
  "sphereRotation (fold (updateItem L time) is ps) = sphereRotation ps"
  "sphereScale (fold (updateItem L time) is ps) = sphereScale ps"
  "selectedIndex (fold (updateItem L time) is ps) = selectedIndex ps"
  "hoveredIndex (fold (updateItem L time) is ps) = hoveredIndex ps"
  by (induction "is" arbitrary: ps) simp_all

lemma hoverIntensities_updateItem:
  "hoverIntensities (updateItem L time i ps) =
     (if state ps = SPHERE \<or> state ps = CRYSTAL_BALL
      then (hoverIntensities ps)
             [i := hoverIntensities ps ! i
                   + ((if int i = hoveredIndex ps \<and> state ps = SPHERE then 1 else 0)
                      - hoverIntensities ps ! i) * 0.15]
      else hoverIntensities ps)"
  by (simp add: updateItem_def Let_def)

lemma ease_range:
  fixes h :: real
  assumes "0 \<le> h" "h \<le> 1"
  shows "0 \<le> h + (1 - h) * 0.15" "h + (1 - h) * 0.15 \<le> 1"
        "0 \<le> h + (0 - h) * 0.15" "h + (0 - h) * 0.15 \<le> 1"
  using assms by (simp_all add: field_simps)

lemma bounded_list_update:
  fixes xs :: "real list"
  assumes "\<forall>h \<in> set xs. 0 \<le> h \<and> h \<le> 1"
    and "i < length xs \<Longrightarrow> 0 \<le> v \<and> v \<le> 1"
  shows "\<forall>h \<in> set (xs[i := v]). 0 \<le> h \<and> h \<le> 1"
proof (cases "i < length xs")
  case True
  with assms show ?thesis
    by (metis insert_iff set_update_subset_insert subsetD)
next
  case False
  then have "xs[i := v] = xs" by (simp add: list_update_beyond)
  with assms(1) show ?thesis by simp
qed

lemma hoverBounded_updateItem:
  assumes "hoverBounded ps"
  shows "hoverBounded (updateItem L time i ps)"
proof -
  let ?xs = "hoverIntensities ps"
  have b: "\<forall>h \<in> set ?xs. 0 \<le> h \<and> h \<le> 1"
    using assms by (simp add: hoverBounded_def)
  have r: "i < length ?xs \<Longrightarrow> 0 \<le> ?xs ! i \<and> ?xs ! i \<le> 1"
    using b by simp
  have e1: "i < length ?xs \<Longrightarrow>
      0 \<le> ?xs ! i + (1 - ?xs ! i) * 0.15 \<and> ?xs ! i + (1 - ?xs ! i) * 0.15 \<le> 1"
    using r ease_range [of "?xs ! i"] by blast
  have e0: "i < length ?xs \<Longrightarrow>
      0 \<le> ?xs ! i + (0 - ?xs ! i) * 0.15 \<and> ?xs ! i + (0 - ?xs ! i) * 0.15 \<le> 1"
    using r ease_range [of "?xs ! i"] by blast
  have "\<forall>h \<in> set (?xs[i := ?xs ! i + (1 - ?xs ! i) * 0.15]). 0 \<le> h \<and> h \<le> 1"
    by (rule bounded_list_update [OF b e1])
  moreover have "\<forall>h \<in> set (?xs[i := ?xs ! i + (0 - ?xs ! i) * 0.15]). 0 \<le> h \<and> h \<le> 1"
    by (rule bounded_list_update [OF b e0])
  ultimately show ?thesis
    unfolding hoverBounded_def hoverIntensities_updateItem using b by simp
qed

lemma hoverBounded_fold:
  "hoverBounded ps \<Longrightarrow> hoverBounded (fold (updateItem L time) is ps)"
  by (induction "is" arbitrary: ps) (simp_all add: hoverBounded_updateItem)

lemma update_frame [simp]:
  "count (PhotoSystem_update L d ps) = count ps"
  "state (PhotoSystem_update L d ps) = state ps"
  "explosionSystem (PhotoSystem_update L d ps) = explosionSystem ps"
  "sphereScale (PhotoSystem_update L d ps) = sphereScale ps"
  "selectedIndex (PhotoSystem_update L d ps) = selectedIndex ps"
  "hoveredIndex (PhotoSystem_update L d ps) = hoveredIndex ps"
  by (simp_all add: PhotoSystem_update_def Let_def ExplosionSystem_update_def)

lemma sphereRotation_update:
  "sphereRotation (PhotoSystem_update L d ps) =
     (let rot = sphereRotation ps in
      if state ps = CRYSTAL_BALL then Vec3 (x3 rot) (y3 rot + 0.05) (sin (d * 0.001) * 0.1)
      else if state ps = SPHERE then Vec3 (x3 rot) (y3 rot + 0.002) (z3 rot)
      else rot)"
  by (simp add: PhotoSystem_update_def Let_def)

lemma hoverBounded_update: "hoverBounded ps \<Longrightarrow> hoverBounded (PhotoSystem_update L d ps)"
  unfolding PhotoSystem_update_def Let_def
  by (rule hoverBounded_fold) (simp add: hoverBounded_def)

lemma setDetailLayout_frame [simp]:
  "count (setDetailLayout L ps k) = count ps"
  "explosionSystem (setDetailLayout L ps k) = explosionSystem ps"
  "sphereRotation (setDetailLayout L ps k) = sphereRotation ps"
  "sphereScale (setDetailLayout L ps k) = sphereScale ps"
  "hoverIntensities (setDetailLayout L ps k) = hoverIntensities ps"
  by (simp_all add: setDetailLayout_def Let_def)

lemma state_setDetailLayout:
  "state (setDetailLayout L ps k) = (if k < 0 \<or> k \<ge> int (count ps) then state ps else DETAIL)"
  by (simp add: setDetailLayout_def Let_def)

lemma setSphereLayout_frame [simp]:
  "count (setSphereLayout ps) = count ps"
  "state (setSphereLayout ps) = SPHERE"
  "sphereScale (setSphereLayout ps) = 1"
  "selectedIndex (setSphereLayout ps) = -1"
  "sphereRotation (setSphereLayout ps) = sphereRotation ps"
  "hoverIntensities (setSphereLayout ps) = hoverIntensities ps"
  "explodeCalls (explosionSystem (setSphereLayout ps)) =
     explodeCalls (explosionSystem ps) + (if state ps = CRYSTAL_BALL then 1 else 0)"
  by (simp_all add: setSphereLayout_def Let_def explode_def)

lemma setHovered_frame [simp]:
  "count (setHovered ps k) = count ps"
  "state (setHovered ps k) = state ps"
  "explosionSystem (setHovered ps k) = explosionSystem ps"
  "sphereRotation (setHovered ps k) = sphereRotation ps"
  "sphereScale (setHovered ps k) = sphereScale ps"
  "hoverIntensities (setHovered ps k) = hoverIntensities ps"
  by (simp_all add: setHovered_def)

lemma setExpansion_frame [simp]:
  "count (setExpansion ps f) = count ps"
  "state (setExpansion ps f) = state ps"
  "explosionSystem (setExpansion ps f) = explosionSystem ps"
  "sphereRotation (setExpansion ps f) = sphereRotation ps"
  "hoverIntensities (setExpansion ps f) = hoverIntensities ps"
  by (simp_all add: setExpansion_def)

lemma rotateSphere_frame [simp]:
  "count (rotateSphere ps a b) = count ps"
  "state (rotateSphere ps a b) = state ps"
  "explosionSystem (rotateSphere ps a b) = explosionSystem ps"
  "sphereScale (rotateSphere ps a b) = sphereScale ps"
  "hoverIntensities (rotateSphere ps a b) = hoverIntensities ps"
  "sphereRotation (rotateSphere ps a b) =
     Vec3 (x3 (sphereRotation ps) + b) (y3 (sphereRotation ps) + a) (z3 (sphereRotation ps))"
  by (simp_all add: rotateSphere_def)

lemma nextPrev_frame [simp]:
  "explosionSystem (nextPhoto L ps) = explosionSystem ps"
  "explosionSystem (prevPhoto L ps) = explosionSystem ps"
  "hoverIntensities (nextPhoto L ps) = hoverIntensities ps"
  "hoverIntensities (prevPhoto L ps) = hoverIntensities ps"
  "sphereRotation (nextPhoto L ps) = sphereRotation ps"
  "sphereRotation (prevPhoto L ps) = sphereRotation ps"
  by (simp_all add: nextPhoto_def prevPhoto_def Let_def)

lemma state_nextPrev:
  "state ps = DETAIL \<Longrightarrow> state (nextPhoto L ps) = DETAIL"
  "state ps = DETAIL \<Longrightarrow> state (prevPhoto L ps) = DETAIL"
  by (simp_all add: nextPhoto_def prevPhoto_def Let_def state_setDetailLayout)

lemma sphereMode_frame [simp]:
  "explosionSystem (sphereMode L vm hov ps) = explosionSystem ps"
  "hoverIntensities (sphereMode L vm hov ps) = hoverIntensities ps"
  by (simp_all add: sphereMode_def Let_def)

lemma state_sphereMode:
  "state ps = SPHERE \<Longrightarrow> state (sphereMode L vm hov ps) \<noteq> CRYSTAL_BALL"
  by (simp add: sphereMode_def Let_def state_setDetailLayout)

lemma detailMode_frame [simp]:
  "hoverIntensities (detailMode L vm ps) = hoverIntensities ps"
  by (simp_all add: detailMode_def Let_def)

lemma detailMode_explode:
  "state ps = DETAIL \<Longrightarrow>
     explodeCalls (explosionSystem (detailMode L vm ps)) = explodeCalls (explosionSystem ps)
     \<and> state (detailMode L vm ps) \<noteq> CRYSTAL_BALL"
  by (simp add: detailMode_def Let_def state_nextPrev)

lemma interaction_frame [simp]:
  "hoverIntensities (interaction L vm hit ps) = hoverIntensities ps"
  by (simp add: interaction_def Let_def)

lemma interaction_explode:
  "explodeCalls (explosionSystem (interaction L vm hit ps)) =
     explodeCalls (explosionSystem ps)
     + (if state ps = CRYSTAL_BALL \<and> state (interaction L vm hit ps) = SPHERE then 1 else 0)"
proof (cases "state ps")
  case CRYSTAL_BALL
  then show ?thesis by (simp add: interaction_def Let_def)
next
  case SPHERE
  then show ?thesis by (simp add: interaction_def Let_def)
next
  case DETAIL
  then show ?thesis by (simp add: interaction_def Let_def detailMode_explode)
qed

lemma visionManager_frame [simp]:
  "visionManager (frame L s inp) = update (visionManager s) (currentTime inp) (results inp)"
  by (simp add: frame_def Let_def)

lemma photoSystem_frame:
  "photoSystem (frame L s inp) =
     PhotoSystem_update L (dateNow inp)
       (interaction L (update (visionManager s) (currentTime inp) (results inp)) (rayHit inp)
          (photoSystem s))"
  by (simp add: frame_def Let_def)

lemma frame_explode:
  "explodeCalls (explosionSystem (photoSystem (frame L s inp))) =
     explodeCalls (explosionSystem (photoSystem s))
     + (if state (photoSystem s) = CRYSTAL_BALL \<and> state (photoSystem (frame L s inp)) = SPHERE
        then 1 else 0)"
  by (simp only: photoSystem_frame update_frame interaction_explode)

lemma hoverBounded_frame:
  "hoverBounded (photoSystem s) \<Longrightarrow> hoverBounded (photoSystem (frame L s inp))"
  unfolding photoSystem_frame
  by (rule hoverBounded_update) (simp add: hoverBounded_def)

lemma sqrt_sq: "0 \<le> (c::real) \<Longrightarrow> a = c * c \<Longrightarrow> sqrt a = c"
  by (simp add: real_sqrt_mult)

lemma sqrt_vals:
  "sqrt (1 / 25) = 1 / 5" "sqrt (4 / 25) = 2 / 5" "sqrt (16 / 25) = 4 / 5"
  "sqrt (1 / 100) = 1 / 10"
  by (rule sqrt_sq; simp)+

lemma poses_eval:
  "palmPosition (openHand cx) = Vec3 cx 0.5 0"
  "palmPosition (pinchHand cx) = Vec3 cx 0.5 0"
  "palmPosition (fistHand cx) = Vec3 cx 0.5 0"
  "rawPinchDist (openHand cx) = 0.2"
  "rawPinchDist (pinchHand cx) = 0"
  "rawPinchDist (fistHand cx) = 0"
  "closedFingers (openHand cx) = 0"
  "closedFingers (pinchHand cx) = 0"
  "closedFingers (fistHand cx) = 4"
  by (simp_all add: palmPosition_def rawPinchDist_def closedFingers_def tipDistance_def
        openHand_def pinchHand_def fistHand_def pose_def Let_def sqrt_vals power2_eq_square)

lemma vision_of_step: "visionManager (step L s ev) = visionStep (visionManager s) ev"
  by (cases ev) simp_all

lemma run_Nil [simp]: "run L s [] = s"
  by (simp add: run_def)

lemma run_Cons [simp]: "run L s (ev # evs) = run L (step L s ev) evs"
  by (simp add: run_def)

lemma run_snoc: "run L s (evs @ [ev]) = step L (run L s evs) ev"
  by (simp add: run_def)

lemma visionRun_snoc: "visionRun vm (evs @ [ev]) = visionStep (visionRun vm evs) ev"
  by (simp add: visionRun_def)

lemma vision_of_run: "visionManager (run L s evs) = visionRun (visionManager s) evs"
  by (induction evs arbitrary: s) (simp_all add: visionRun_def vision_of_step)

lemma vision_of_newApp [simp]: "visionManager (newApp n) = newVisionManager"
  by (simp add: newApp_def)

lemma step_explode:
  "explodeCalls (explosionSystem (photoSystem (step L s ev))) =
     explodeCalls (explosionSystem (photoSystem s))
     + (if state (photoSystem s) = CRYSTAL_BALL \<and> state (photoSystem (step L s ev)) = SPHERE
        then 1 else 0)"
  by (cases ev) (auto simp add: frame_explode textureLoaded_def)

lemma hoverBounded_step:
  "hoverBounded (photoSystem s) \<Longrightarrow> hoverBounded (photoSystem (step L s ev))"
  by (cases ev) (simp_all add: hoverBounded_frame, simp add: hoverBounded_def textureLoaded_def)

lemma hoverBounded_new: "hoverBounded (photoSystem (newApp n))"
  by (simp add: hoverBounded_def newApp_def newPhotoSystem_def setCrystalBallLayout_def)

lemma hoverBounded_run:
  "hoverBounded (photoSystem s) \<Longrightarrow> hoverBounded (photoSystem (run L s evs))"
  by (induction evs arbitrary: s) (simp_all add: hoverBounded_step)

lemma interaction_sphere_eq:
  "state ps = SPHERE \<Longrightarrow>
     interaction L vm hit ps =
       (let hov = (if detected (rightHand vm)
                   then (case hit of Some i \<Rightarrow> int i | None \<Rightarrow> -1) else -1)
        in sphereMode L vm hov (setHovered ps hov))"
  by (simp add: interaction_def Let_def)

lemma interaction_sphere:
  "state ps = SPHERE \<Longrightarrow>
     \<exists>hov. interaction L vm hit ps = sphereMode L vm hov (setHovered ps hov)"
  by (simp only: interaction_sphere_eq Let_def) blast

lemma sphereMode_steer:
  assumes "state ps = SPHERE" "detected (rightHand vm)" "\<not> isPinching (rightHand vm)"
    and "gesture (rightHand vm) \<noteq> PINCH_START" "gesture (rightHand vm) \<noteq> DOUBLE_PINCH"
  shows "state (sphereMode L vm hov ps) = SPHERE"
    and "sphereRotation (sphereMode L vm hov ps) =
           Vec3 (x3 (sphereRotation ps) + y2 (rotationSpeed (rightHand vm)) * 0.05)
                (y3 (sphereRotation ps) + x2 (rotationSpeed (rightHand vm)) * 0.05)
                (z3 (sphereRotation ps))"
  using assms by (simp_all add: sphereMode_def Let_def)

lemma sphereMode_idle:
  assumes "state ps = SPHERE" "\<not> detected (rightHand vm)"
  shows "state (sphereMode L vm hov ps) = SPHERE"
    and "sphereRotation (sphereMode L vm hov ps) =
           Vec3 (x3 (sphereRotation ps))
                (y3 (sphereRotation ps)
                 + (if \<not> detected (leftHand vm) \<or> pinchDistance (leftHand vm) < 0.2
                    then 0.002 else 0))
                (z3 (sphereRotation ps))"
  using assms by (simp_all add: sphereMode_def Let_def)

lemma sphere_frame_rotation:
  assumes "s = run L (newApp n) evs" and "state (photoSystem s) = SPHERE"
    and "s' = frame L s inp"
    and "rh = rightHand (visionManager s')" and "lh = leftHand (visionManager s')"
    and "rot = sphereRotation (photoSystem s)"
  shows "(detected rh \<and> \<not> isPinching rh \<longrightarrow>
            sphereRotation (photoSystem s') =
              Vec3 (x3 rot + y2 (rotationSpeed rh) * 0.05)
                   (y3 rot + x2 (rotationSpeed rh) * 0.05 + 0.002) (z3 rot))
       \<and> (\<not> detected rh \<longrightarrow>
            sphereRotation (photoSystem s') =
              Vec3 (x3 rot)
                   (y3 rot + (if \<not> detected lh \<or> pinchDistance lh < 0.2 then 0.004 else 0.002))
                   (z3 rot))"
proof -
  let ?vm = "update (visionManager s) (currentTime inp) (results inp)"
  have vm: "visionManager s' = ?vm" using assms(3) by simp
  have "visionInv (visionManager s)"
    unfolding assms(1) by (simp add: vision_of_run visionInv_run)
  then have "visionInv ?vm" by (rule visionInv_update)
  then have rest: "handRest (rightHand ?vm)" by (simp add: visionInv_def)
  from interaction_sphere [OF assms(2), of L ?vm "rayHit inp"] obtain hov
    where i: "interaction L ?vm (rayHit inp) (photoSystem s)
                = sphereMode L ?vm hov (setHovered (photoSystem s) hov)" by blast
  let ?ps1 = "setHovered (photoSystem s) hov"
  have st: "state ?ps1 = SPHERE" using assms(2) by simp
  have ps': "photoSystem s' = PhotoSystem_update L (dateNow inp) (sphereMode L ?vm hov ?ps1)"
    unfolding assms(3) photoSystem_frame i ..
  have a: "sphereRotation (photoSystem s') =
              Vec3 (x3 rot + y2 (rotationSpeed rh) * 0.05)
                   (y3 rot + x2 (rotationSpeed rh) * 0.05 + 0.002) (z3 rot)"
    if "detected rh" "\<not> isPinching rh"
  proof -
    from that assms(4) vm have d: "detected (rightHand ?vm)" "\<not> isPinching (rightHand ?vm)"
      by simp_all
    with rest have g: "gesture (rightHand ?vm) \<noteq> PINCH_START"
        "gesture (rightHand ?vm) \<noteq> DOUBLE_PINCH"
      by (auto simp add: handRest_def)
    show ?thesis
      unfolding ps' sphereRotation_update
      using sphereMode_steer [OF st d g, of L hov] assms(4,6) vm
      by (simp add: Let_def)
  qed
  have b: "sphereRotation (photoSystem s') =
              Vec3 (x3 rot)
                   (y3 rot + (if \<not> detected lh \<or> pinchDistance lh < 0.2 then 0.004 else 0.002))
                   (z3 rot)"
    if "\<not> detected rh"
  proof -
    from that assms(4) vm have d: "\<not> detected (rightHand ?vm)" by simp
    show ?thesis
      unfolding ps' sphereRotation_update
      using sphereMode_idle [OF st d, of L hov] assms(5,6) vm
      by (simp add: Let_def)
  qed
  from a b show ?thesis by blast
qed

subsection \<open>Evaluating the example histories\<close>

lemma tips_eval:
  "openHand cx 8 = Vec3 cx 0.4 0" "pinchHand cx 8 = Vec3 cx 0.4 0" "fistHand cx 8 = Vec3 cx 0.7 0"
  by (simp_all add: openHand_def pinchHand_def fistHand_def pose_def)

lemmas hand_eval = updateHandData_def classifySwipe_def classifyFist_def classifyPinch_def
  trackHand_def remapPinch_def deadzone_def poses_eval tips_eval resetHand_def Let_def

lemmas frame_eval = update_def applyDetection_def calculateHandsDistance_def seen_def
  videoFrame_def hand_eval sqrt_vals

lemmas snoc_eval = visionRun_snoc visionStep.simps

lemma vision_cameraOn:
  "visionRun newVisionManager cameraOn =
     \<lparr> handLandmarker = True, isWebcamRunning = True, lastVideoTime = - 1,
       leftHand =
         \<lparr> detected = False, HandData.position = Vec3 (1 / 2) (1 / 2) 0, pinchDistance = 0,
           isPinching = False, gesture = NONE, velocity = Vec2 0 0, lastPosition = None,
           rotationSpeed = Vec2 0 0, cursor = Vec2 (1 / 2) (1 / 2), lastPinchTime = 0,
           lastGestureTime = 0 \<rparr>,
       rightHand =
         \<lparr> detected = False, HandData.position = Vec3 (1 / 2) (1 / 2) 0, pinchDistance = 0,
           isPinching = False, gesture = NONE, velocity = Vec2 0 0, lastPosition = None,
           rotationSpeed = Vec2 0 0, cursor = Vec2 (1 / 2) (1 / 2), lastPinchTime = 0,
           lastGestureTime = 0 \<rparr>,
       lastHandsDistance = 0, handsDistance = 0, handsDetectedBoth = False \<rparr>"
  by (simp add: visionRun_def cameraOn_def newVisionManager_def createEmptyHandData_def)

lemma vision_fistRun:
  "visionRun newVisionManager fistRun =
     \<lparr> handLandmarker = True, isWebcamRunning = True, lastVideoTime = 1,
       leftHand =
         \<lparr> detected = False, HandData.position = Vec3 (1 / 2) (1 / 2) 0, pinchDistance = 0,
           isPinching = False, gesture = NONE, velocity = Vec2 0 0, lastPosition = None,
           rotationSpeed = Vec2 0 0, cursor = Vec2 (1 / 2) (1 / 2), lastPinchTime = 0,
           lastGestureTime = 0 \<rparr>,
       rightHand =
         \<lparr> detected = True, HandData.position = Vec3 (1 / 2) (1 / 2) 0, pinchDistance = 0,
           isPinching = True, gesture = FIST, velocity = Vec2 0 0,
           lastPosition = Some (Vec3 (1 / 2) (1 / 2) 0), rotationSpeed = Vec2 0 0,
           cursor = Vec2 (1 / 2) (27 / 50), lastPinchTime = 5000,
           lastGestureTime = 0 \<rparr>,
       lastHandsDistance = 0, handsDistance = 0, handsDetectedBoth = False \<rparr>"
  by (simp add: fistRun_def snoc_eval vision_cameraOn fistFrame_def frame_eval)

lemma vision_releaseRun:
  "visionRun newVisionManager releaseRun =
     \<lparr> handLandmarker = True, isWebcamRunning = True, lastVideoTime = 2,
       leftHand =
         \<lparr> detected = False, HandData.position = Vec3 (1 / 2) (1 / 2) 0, pinchDistance = 0,
           isPinching = False, gesture = NONE, velocity = Vec2 0 0, lastPosition = None,
           rotationSpeed = Vec2 0 0, cursor = Vec2 (1 / 2) (1 / 2), lastPinchTime = 0,
           lastGestureTime = 0 \<rparr>,
       rightHand =
         \<lparr> detected = True, HandData.position = Vec3 (1 / 2) (1 / 2) 0,
           pinchDistance = 17 / 22, isPinching = False, gesture = PINCH_END,
           velocity = Vec2 0 0, lastPosition = Some (Vec3 (1 / 2) (1 / 2) 0),
           rotationSpeed = Vec2 0 0, cursor = Vec2 (1 / 2) (64 / 125),
           lastPinchTime = 5000, lastGestureTime = 0 \<rparr>,
       lastHandsDistance = 0, handsDistance = 0, handsDetectedBoth = False \<rparr>"
  by (simp add: releaseRun_def snoc_eval vision_fistRun releaseFrame_def frame_eval)

lemma vision_apartRun:
  "visionRun newVisionManager apartRun =
     \<lparr> handLandmarker = True, isWebcamRunning = True, lastVideoTime = 1,
       leftHand =
         \<lparr> detected = True, HandData.position = Vec3 (1 / 10) (1 / 2) 0,
           pinchDistance = 17 / 22, isPinching = False, gesture = NONE,
           velocity = Vec2 0 0, lastPosition = Some (Vec3 (1 / 10) (1 / 2) 0),
           rotationSpeed = Vec2 (- (3 / 5)) 0, cursor = Vec2 (29 / 50) (12 / 25),
           lastPinchTime = 0, lastGestureTime = 0 \<rparr>,
       rightHand =
         \<lparr> detected = True, HandData.position = Vec3 (9 / 10) (1 / 2) 0,
           pinchDistance = 17 / 22, isPinching = False, gesture = NONE,
           velocity = Vec2 0 0, lastPosition = Some (Vec3 (9 / 10) (1 / 2) 0),
           rotationSpeed = Vec2 (3 / 5) 0, cursor = Vec2 (21 / 50) (12 / 25),
           lastPinchTime = 0, lastGestureTime = 0 \<rparr>,
       lastHandsDistance = 0, handsDistance = 9 / 65, handsDetectedBoth = True \<rparr>"
  by (simp add: apartRun_def snoc_eval vision_cameraOn apartFrame_def frame_eval)

lemma vision_apartRun2:
  "visionRun newVisionManager apartRun2 =
     \<lparr> handLandmarker = True, isWebcamRunning = True, lastVideoTime = 2,
       leftHand =
         \<lparr> detected = True, HandData.position = Vec3 (1 / 10) (1 / 2) 0,
           pinchDistance = 17 / 22, isPinching = False, gesture = NONE,
           velocity = Vec2 0 0, lastPosition = Some (Vec3 (1 / 10) (1 / 2) 0),
           rotationSpeed = Vec2 (- (3 / 5)) 0, cursor = Vec2 (161 / 250) (58 / 125),
           lastPinchTime = 0, lastGestureTime = 0 \<rparr>,
       rightHand =
         \<lparr> detected = True, HandData.position = Vec3 (9 / 10) (1 / 2) 0,
           pinchDistance = 17 / 22, isPinching = False, gesture = NONE,
           velocity = Vec2 0 0, lastPosition = Some (Vec3 (9 / 10) (1 / 2) 0),
           rotationSpeed = Vec2 (3 / 5) 0, cursor = Vec2 (89 / 250) (58 / 125),
           lastPinchTime = 0, lastGestureTime = 0 \<rparr>,
       lastHandsDistance = 0, handsDistance = 243 / 845,
         handsDetectedBoth = True \<rparr>"
  by (simp add: apartRun2_def snoc_eval vision_apartRun apartFrame_def frame_eval)

lemma vision_sphereRun:
  "visionRun newVisionManager sphereRun =
     \<lparr> handLandmarker = True, isWebcamRunning = True, lastVideoTime = 1,
       leftHand =
         \<lparr> detected = False, HandData.position = Vec3 (1 / 2) (1 / 2) 0, pinchDistance = 0,
           isPinching = False, gesture = NONE, velocity = Vec2 0 0, lastPosition = None,
           rotationSpeed = Vec2 0 0, cursor = Vec2 (1 / 2) (1 / 2), lastPinchTime = 0,
           lastGestureTime = 0 \<rparr>,
       rightHand =
         \<lparr> detected = True, HandData.position = Vec3 (1 / 2) (1 / 2) 0, pinchDistance = 0,
           isPinching = True, gesture = PINCH_START, velocity = Vec2 0 0,
           lastPosition = Some (Vec3 (1 / 2) (1 / 2) 0), rotationSpeed = Vec2 0 0,
           cursor = Vec2 (1 / 2) (12 / 25), lastPinchTime = 5000,
           lastGestureTime = 0 \<rparr>,
       lastHandsDistance = 0, handsDistance = 0, handsDetectedBoth = False \<rparr>"
  by (simp add: sphereRun_def snoc_eval vision_cameraOn pinchFrame_def frame_eval)

lemma update_emptyFrame:
  "\<not> detected (rightHand (update (visionRun newVisionManager fistRun) 2 []))"
  "gesture (rightHand (update (visionRun newVisionManager fistRun) 2 [])) = FIST"
  by (simp_all add: vision_fistRun frame_eval)

lemma update_togetherFrame:
  "detected (leftHand (update (visionRun newVisionManager apartRun2) 3 (results togetherFrame)))"
  "detected (rightHand (update (visionRun newVisionManager apartRun2) 3 (results togetherFrame)))"
  "HandData.position (leftHand (update (visionRun newVisionManager apartRun2) 3 (results togetherFrame)))
     = Vec3 (1 / 2) (1 / 2) 0"
  "HandData.position (rightHand (update (visionRun newVisionManager apartRun2) 3 (results togetherFrame)))
     = Vec3 (1 / 2) (1 / 2) 0"
  "handsDistance (update (visionRun newVisionManager apartRun2) 3 (results togetherFrame))
     = 867 / 10985"
  by (simp_all add: vision_apartRun2 togetherFrame_def frame_eval)

lemma update_rightOnlyFrame:
  "\<not> detected (leftHand (update (visionRun newVisionManager apartRun) 2 (results rightOnlyFrame)))"
  "detected (rightHand (update (visionRun newVisionManager apartRun) 2 (results rightOnlyFrame)))"
  by (simp_all add: vision_apartRun rightOnlyFrame_def frame_eval)

subsection \<open>The application on the example histories\<close>

lemma vision_doublePinchRun:
  "gesture (leftHand (visionRun newVisionManager doublePinchRun)) = NONE"
  "gesture (rightHand (visionRun newVisionManager doublePinchRun)) = DOUBLE_PINCH"
  "detected (rightHand (visionRun newVisionManager doublePinchRun))"
  by (simp_all add: doublePinchRun_def snoc_eval vision_releaseRun repinchFrame_def frame_eval)

lemma vision_steer:
  "detected (rightHand
      (update (visionRun newVisionManager sphereRun)
        (currentTime (steerFrame hit)) (results (steerFrame hit))))"
  "\<not> isPinching (rightHand
      (update (visionRun newVisionManager sphereRun)
        (currentTime (steerFrame hit)) (results (steerFrame hit))))"
  "gesture (rightHand
      (update (visionRun newVisionManager sphereRun)
        (currentTime (steerFrame hit)) (results (steerFrame hit)))) = PINCH_END"
  "rotationSpeed (rightHand
      (update (visionRun newVisionManager sphereRun)
        (currentTime (steerFrame hit)) (results (steerFrame hit))))
     = Vec2 0 0"
  "pinchDistance (rightHand
      (update (visionRun newVisionManager sphereRun)
        (currentTime (steerFrame hit)) (results (steerFrame hit))))
     = 17 / 22"
  "pinchDistance (leftHand
      (update (visionRun newVisionManager sphereRun)
        (currentTime (steerFrame hit)) (results (steerFrame hit)))) = 0"
  "handsDistance
      (update (visionRun newVisionManager sphereRun)
        (currentTime (steerFrame hit)) (results (steerFrame hit))) = 0"
  "\<not> handsDetectedBoth
      (update (visionRun newVisionManager sphereRun)
        (currentTime (steerFrame hit)) (results (steerFrame hit)))"
  by (simp_all add: vision_sphereRun steerFrame_def frame_eval)

lemma vision_leftPinch:
  "\<not> detected (rightHand
      (update (visionRun newVisionManager sphereRun)
        (currentTime leftPinchFrame) (results leftPinchFrame)))"
  "detected (leftHand
      (update (visionRun newVisionManager sphereRun)
        (currentTime leftPinchFrame) (results leftPinchFrame)))"
  "isPinching (leftHand
      (update (visionRun newVisionManager sphereRun)
        (currentTime leftPinchFrame) (results leftPinchFrame)))"
  "gesture (leftHand
      (update (visionRun newVisionManager sphereRun)
        (currentTime leftPinchFrame) (results leftPinchFrame))) = PINCH_START"
  "pinchDistance (leftHand
      (update (visionRun newVisionManager sphereRun)
        (currentTime leftPinchFrame) (results leftPinchFrame))) = 0"
  by (simp_all add: vision_sphereRun leftPinchFrame_def frame_eval)

lemma newApp_photo:
  "state (photoSystem (newApp n)) = CRYSTAL_BALL"
  "sphereScale (photoSystem (newApp n)) = 0.2"
  "explodeCalls (explosionSystem (photoSystem (newApp n))) = 0"
  "sphereRotation (photoSystem (newApp n)) = Vec3 0 0 0"
  "hoverIntensities (photoSystem (newApp n)) = replicate n 0"
  "hoveredIndex (photoSystem (newApp n)) = - 1"
  "count (photoSystem (newApp n)) = n"
  by (simp_all add: newApp_def newPhotoSystem_def setCrystalBallLayout_def newExplosionSystem_def)

lemma photo_cameraOn: "photoSystem (run L s cameraOn) = photoSystem s"
  by (simp add: cameraOn_def)

lemma run_frame: "run L s (evs @ [Frame inp]) = frame L (run L s evs) inp"
  by (simp add: run_snoc)

lemma vision_frame_run:
  "visionManager (frame L (run L (newApp n) evs) inp)
     = visionRun newVisionManager (evs @ [Frame inp])"
  by (simp add: vision_of_run visionRun_snoc)

lemma interaction_crystal:
  "state ps = CRYSTAL_BALL \<Longrightarrow>
     interaction L vm hit ps =
       (if gesture (leftHand vm) = PINCH_START \<or> gesture (rightHand vm) = PINCH_START
        then setSphereLayout ps else ps)"
  by (simp add: interaction_def Let_def setHovered_def)

lemma crystal_run_stay:
  assumes "state (photoSystem (run L (newApp n) evs)) = CRYSTAL_BALL"
    and "gesture (leftHand (visionRun newVisionManager (evs @ [Frame inp]))) \<noteq> PINCH_START"
    and "gesture (rightHand (visionRun newVisionManager (evs @ [Frame inp]))) \<noteq> PINCH_START"
  shows "state (photoSystem (run L (newApp n) (evs @ [Frame inp]))) = CRYSTAL_BALL"
    and "sphereScale (photoSystem (run L (newApp n) (evs @ [Frame inp])))
           = sphereScale (photoSystem (run L (newApp n) evs))"
  using assms
  by (simp_all add: run_frame photoSystem_frame interaction_crystal
        vision_of_run visionRun_snoc)

lemma crystal_run_explode:
  assumes "state (photoSystem (run L (newApp n) evs)) = CRYSTAL_BALL"
    and "gesture (leftHand (visionRun newVisionManager (evs @ [Frame inp]))) = PINCH_START
         \<or> gesture (rightHand (visionRun newVisionManager (evs @ [Frame inp]))) = PINCH_START"
  shows "state (photoSystem (run L (newApp n) (evs @ [Frame inp]))) = SPHERE"
    and "sphereScale (photoSystem (run L (newApp n) (evs @ [Frame inp]))) = 1"
    and "explodeCalls (explosionSystem (photoSystem (run L (newApp n) (evs @ [Frame inp]))))
           = explodeCalls (explosionSystem (photoSystem (run L (newApp n) evs))) + 1"
    and "sphereRotation (photoSystem (run L (newApp n) (evs @ [Frame inp])))
           = Vec3 (x3 (sphereRotation (photoSystem (run L (newApp n) evs))))
                  (y3 (sphereRotation (photoSystem (run L (newApp n) evs))) + 0.002)
                  (z3 (sphereRotation (photoSystem (run L (newApp n) evs))))"
    and "photoSystem (run L (newApp n) (evs @ [Frame inp]))
           = PhotoSystem_update L (dateNow inp)
               (setSphereLayout (photoSystem (run L (newApp n) evs)))"
  using assms
  by (simp_all add: run_frame photoSystem_frame interaction_crystal sphereRotation_update
        vision_of_run visionRun_snoc Let_def)

lemma crystal_cameraOn:
  "state (photoSystem (run L (newApp n) cameraOn)) = CRYSTAL_BALL"
  "sphereScale (photoSystem (run L (newApp n) cameraOn)) = 0.2"
  "explodeCalls (explosionSystem (photoSystem (run L (newApp n) cameraOn))) = 0"
  "sphereRotation (photoSystem (run L (newApp n) cameraOn)) = Vec3 0 0 0"
  by (simp_all only: photo_cameraOn newApp_photo)

lemma crystal_fistRun:
  "state (photoSystem (run L (newApp n) fistRun)) = CRYSTAL_BALL"
  "sphereScale (photoSystem (run L (newApp n) fistRun)) = 0.2"
  unfolding fistRun_def
  using crystal_run_stay [of L n cameraOn fistFrame]
  by (simp_all add: crystal_cameraOn fistRun_def [symmetric] vision_fistRun)

lemma crystal_releaseRun:
  "state (photoSystem (run L (newApp n) releaseRun)) = CRYSTAL_BALL"
  "sphereScale (photoSystem (run L (newApp n) releaseRun)) = 0.2"
  unfolding releaseRun_def
  using crystal_run_stay [of L n fistRun releaseFrame]
  by (simp_all add: crystal_fistRun releaseRun_def [symmetric] vision_releaseRun)

lemma crystal_doublePinchRun:
  "state (photoSystem (run L (newApp n) doublePinchRun)) = CRYSTAL_BALL"
  "sphereScale (photoSystem (run L (newApp n) doublePinchRun)) = 0.2"
  unfolding doublePinchRun_def
  using crystal_run_stay [of L n releaseRun repinchFrame]
  by (simp_all add: crystal_releaseRun doublePinchRun_def [symmetric] vision_doublePinchRun)

lemma sphere_sphereRun:
  "state (photoSystem (run L (newApp n) sphereRun)) = SPHERE"
  "sphereScale (photoSystem (run L (newApp n) sphereRun)) = 1"
  "explodeCalls (explosionSystem (photoSystem (run L (newApp n) sphereRun))) = 1"
  "sphereRotation (photoSystem (run L (newApp n) sphereRun)) = Vec3 0 (1 / 500) 0"
  "photoSystem (run L (newApp n) sphereRun)
     = PhotoSystem_update L (dateNow pinchFrame) (setSphereLayout (photoSystem (newApp n)))"
proof -
  have c: "state (photoSystem (run L (newApp n) cameraOn)) = CRYSTAL_BALL"
    by (rule crystal_cameraOn)
  have g: "gesture (leftHand (visionRun newVisionManager (cameraOn @ [Frame pinchFrame]))) = PINCH_START
         \<or> gesture (rightHand (visionRun newVisionManager (cameraOn @ [Frame pinchFrame]))) = PINCH_START"
    unfolding sphereRun_def [symmetric] by (simp add: vision_sphereRun)
  note r = crystal_run_explode [OF c g, folded sphereRun_def]
  show "state (photoSystem (run L (newApp n) sphereRun)) = SPHERE" by (rule r)
  show "sphereScale (photoSystem (run L (newApp n) sphereRun)) = 1" by (rule r)
  show "explodeCalls (explosionSystem (photoSystem (run L (newApp n) sphereRun))) = 1"
    unfolding r(3) by (simp add: crystal_cameraOn)
  show "sphereRotation (photoSystem (run L (newApp n) sphereRun)) = Vec3 0 (1 / 500) 0"
    unfolding r(4) by (simp add: crystal_cameraOn)
  show "photoSystem (run L (newApp n) sphereRun)
     = PhotoSystem_update L (dateNow pinchFrame) (setSphereLayout (photoSystem (newApp n)))"
    unfolding r(5) by (simp only: photo_cameraOn)
qed

lemma hoveredIndex_ops [simp]:
  "hoveredIndex (setSphereLayout ps) = hoveredIndex ps"
  "hoveredIndex (setHovered ps k) = (if state ps \<noteq> SPHERE then hoveredIndex ps else k)"
  "hoveredIndex (setExpansion ps f) = hoveredIndex ps"
  "hoveredIndex (rotateSphere ps a b) = hoveredIndex ps"
  "hoveredIndex (setDetailLayout L ps k) = hoveredIndex ps"
  by (simp_all add: setSphereLayout_def setHovered_def setExpansion_def rotateSphere_def
        setDetailLayout_def Let_def)

lemma sphereMode_keep [simp]:
  "count (sphereMode L vm hov ps) = count ps"
  "hoveredIndex (sphereMode L vm hov ps) = hoveredIndex ps"
  by (simp_all add: sphereMode_def Let_def)

lemma upt_two: "[0..<2] = [0, Suc 0]"
  by (simp add: upt_rec)

lemma hover_update_two:
  assumes "count ps = 2" and "hoverIntensities ps = [a, b]" and "state ps = SPHERE"
  shows "hoverIntensities (PhotoSystem_update L d ps) =
           [a + ((if hoveredIndex ps = 0 then 1 else 0) - a) * 0.15,
            b + ((if hoveredIndex ps = 1 then 1 else 0) - b) * 0.15]"
  using assms
  by (simp add: PhotoSystem_update_def Let_def upt_two hoverIntensities_updateItem)

lemma replicate_two: "replicate 2 x = [x, x]"
  by (simp add: numeral_2_eq_2)

lemma rayHit_steerFrame: "rayHit (steerFrame hit) = hit"
  by (simp add: steerFrame_def videoFrame_def)

lemma hover_sphereRun:
  "count (photoSystem (run L (newApp 2) sphereRun)) = 2"
  "hoveredIndex (photoSystem (run L (newApp 2) sphereRun)) = - 1"
  "hoverIntensities (photoSystem (run L (newApp 2) sphereRun)) = [0, 0]"
proof -
  let ?ps = "setSphereLayout (photoSystem (newApp 2))"
  have c: "count ?ps = 2" "hoverIntensities ?ps = [0, 0]" "state ?ps = SPHERE"
      "hoveredIndex ?ps = - 1"
    by (simp_all add: newApp_photo replicate_two)
  show "count (photoSystem (run L (newApp 2) sphereRun)) = 2"
    by (simp add: sphere_sphereRun(5) newApp_photo)
  show "hoveredIndex (photoSystem (run L (newApp 2) sphereRun)) = - 1"
    by (simp add: sphere_sphereRun(5) newApp_photo)
  show "hoverIntensities (photoSystem (run L (newApp 2) sphereRun)) = [0, 0]"
    unfolding sphere_sphereRun(5) hover_update_two [OF c(1,2,3)] by (simp add: newApp_photo)
qed

lemma hover_steer:
  "hoverIntensities (photoSystem (frame L (run L (newApp 2) sphereRun) (steerFrame (Some 0))))
     = [3 / 20, 0]"
proof -
  let ?s = "run L (newApp 2) sphereRun"
  let ?vm = "update (visionRun newVisionManager sphereRun) (currentTime (steerFrame (Some 0)))
               (results (steerFrame (Some 0)))"
  let ?ps = "sphereMode L ?vm 0 (setHovered (photoSystem ?s) 0)"
  have st: "state (setHovered (photoSystem ?s) 0) = SPHERE"
    by (simp add: sphere_sphereRun(1))
  have g: "gesture (rightHand ?vm) \<noteq> PINCH_START" "gesture (rightHand ?vm) \<noteq> DOUBLE_PINCH"
    by (simp_all add: vision_steer)
  have i: "interaction L ?vm (rayHit (steerFrame (Some 0))) (photoSystem ?s) = ?ps"
    by (simp add: interaction_sphere_eq sphere_sphereRun(1) vision_steer rayHit_steerFrame)
  have c: "count ?ps = 2" "hoverIntensities ?ps = [0, 0]" "hoveredIndex ?ps = 0"
    by (simp_all add: hover_sphereRun sphere_sphereRun(1))
  have s: "state ?ps = SPHERE"
    by (rule sphereMode_steer(1) [OF st vision_steer(1,2) g])
  have "photoSystem (frame L ?s (steerFrame (Some 0)))
          = PhotoSystem_update L (dateNow (steerFrame (Some 0))) ?ps"
    by (simp only: photoSystem_frame vision_of_run vision_of_newApp i)
  then show ?thesis
    using c(3) by (simp add: hover_update_two [OF c(1,2) s] sphere_sphereRun(1))
qed

section \<open>The claims\<close>



text \<open>
  C2 (the code on a failing input). In the CRYSTAL_BALL state the frame callback tests the
  two gestures for PINCH_START only, although its comment reads "any pinch". On the history
  \<open>doublePinchRun\<close> (the camera comes up; the right hand shows a clenched pinch, which is
  reported as FIST, opens, and pinches again 200 ms after the first pinch) the last frame
  is processed in the CRYSTAL_BALL state with the right hand's gesture DOUBLE_PINCH, and
  the layout is still CRYSTAL_BALL with sphereScale 0.2 afterwards, not SPHERE with 1.0.
\<close>

theorem double_pinch_stays_crystal_ball:
  "state (photoSystem (run L (newApp n) releaseRun)) = CRYSTAL_BALL
   \<and> gesture (rightHand (visionManager (run L (newApp n) doublePinchRun))) = DOUBLE_PINCH
   \<and> state (photoSystem (run L (newApp n) doublePinchRun)) = CRYSTAL_BALL
   \<and> sphereScale (photoSystem (run L (newApp n) doublePinchRun)) = 0.2"
  by (simp add: crystal_releaseRun crystal_doublePinchRun vision_of_run vision_doublePinchRun)

text \<open>
  C3 (as amended). After every call of \<^verbatim>\<open>update()\<close>, in every reachable state, a hand
  slot that is not detected has velocity, rotationSpeed and pinchDistance 0, and its
  gesture, its pinching flag, position, cursor, lastPinchTime and lastGestureTime are the
  ones it had before the call: \<^verbatim>\<open>resetHand\<close> does not touch the gesture.
\<close>

theorem lost_hand_rest:
  assumes "vm = visionRun newVisionManager evs"
    and "h = handOf r vm" and "h' = handOf r (update vm t ds)"
    and "\<not> detected h'"
  shows "velocity h' = Vec2 0 0 \<and> rotationSpeed h' = Vec2 0 0 \<and> pinchDistance h' = 0
         \<and> gesture h' = gesture h \<and> isPinching h' = isPinching h
         \<and> HandData.position h' = HandData.position h \<and> cursor h' = cursor h
         \<and> lastPinchTime h' = lastPinchTime h \<and> lastGestureTime h' = lastGestureTime h"
proof (cases "processes vm t")
  case True
  have "h' = slotAfter h (slotDetections r ds)"
    using assms handOf_update [OF True] by simp
  moreover from this assms(4) have "slotDetections r ds = []"
    by (simp add: detected_slotAfter)
  ultimately show ?thesis by (simp add: slotAfter_def resetHand_def)
next
  case False
  then have same: "h' = h" using assms by (simp add: update_skip)
  have "handRest h"
    using visionInv_run [of evs] assms(1,2) by (simp add: visionInv_def handOf_def)
  with same assms(4) show ?thesis by (simp add: handRest_def)
qed

theorem lost_hand_rest_witness:
  "\<not> detected (handOf True (update (visionRun newVisionManager fistRun) 2 []))
   \<and> velocity (handOf True (update (visionRun newVisionManager fistRun) 2 [])) = Vec2 0 0
   \<and> rotationSpeed (handOf True (update (visionRun newVisionManager fistRun) 2 [])) = Vec2 0 0
   \<and> pinchDistance (handOf True (update (visionRun newVisionManager fistRun) 2 [])) = 0
   \<and> gesture (handOf True (update (visionRun newVisionManager fistRun) 2 [])) = FIST
   \<and> cursor (handOf True (update (visionRun newVisionManager fistRun) 2 [])) = Vec2 (1 / 2) (27 / 50)
   \<and> lastPinchTime (handOf True (update (visionRun newVisionManager fistRun) 2 [])) = 5000"
proof -
  have d: "\<not> detected (handOf True (update (visionRun newVisionManager fistRun) 2 []))"
    by (simp add: handOf_def update_emptyFrame)
  from lost_hand_rest [OF refl refl refl d] d show ?thesis
    by (simp add: handOf_def vision_fistRun)
qed

text \<open>
  C3 as stated fails: a frame without hands after a frame with a fist leaves the right
  hand undetected with the gesture FIST, not NONE.
\<close>

theorem lost_hand_keeps_gesture:
  "\<not> detected (rightHand (update (visionRun newVisionManager fistRun) 2 []))
   \<and> gesture (rightHand (update (visionRun newVisionManager fistRun) 2 [])) \<noteq> NONE"
  by (simp add: update_emptyFrame)

text \<open>
  C4 (as amended). On every call of \<^verbatim>\<open>update()\<close> that processes a frame with both hands
  detected at equal positions, handsDistance becomes
  \<open>clamp ((0.7 h - 0.15) / 0.65)\<close> for its previous value \<open>h\<close>, the smoothing keeping 70%
  of the old value; the result is 0 exactly when \<open>h \<le> 3/14\<close>, in particular from the
  initial value 0.
\<close>

theorem equal_positions_distance:
  assumes "processes vm t" and "vm' = update vm t ds"
    and "detected (leftHand vm')" and "detected (rightHand vm')"
    and "HandData.position (leftHand vm') = HandData.position (rightHand vm')"
  shows "handsDistance vm' = max 0 (min 1 ((handsDistance vm * 0.7 - 0.15) / 0.65))
         \<and> (handsDistance vm' = 0 \<longleftrightarrow> handsDistance vm \<le> 3 / 14)"
proof -
  have "handsDistance vm' = max 0 (min 1 ((handsDistance vm * 0.7 - 0.15) / 0.65))"
    using assms by (simp add: update_distance [OF assms(1)] blendDistance_def)
  then show ?thesis by (auto simp add: max_def min_def field_simps)
qed

theorem equal_positions_distance_witness:
  "processes (visionRun newVisionManager apartRun2) 3
   \<and> detected (leftHand (update (visionRun newVisionManager apartRun2) 3 (results togetherFrame)))
   \<and> detected (rightHand (update (visionRun newVisionManager apartRun2) 3 (results togetherFrame)))
   \<and> handsDistance (visionRun newVisionManager apartRun2) = 243 / 845
   \<and> handsDistance (update (visionRun newVisionManager apartRun2) 3 (results togetherFrame))
       = max 0 (min 1 ((243 / 845 * 0.7 - 0.15) / 0.65))"
proof -
  have p: "processes (visionRun newVisionManager apartRun2) 3"
    by (simp add: processes_def vision_apartRun2)
  have e: "HandData.position (leftHand (update (visionRun newVisionManager apartRun2) 3 (results togetherFrame)))
         = HandData.position (rightHand (update (visionRun newVisionManager apartRun2) 3 (results togetherFrame)))"
    by (simp only: update_togetherFrame)
  have h: "handsDistance (visionRun newVisionManager apartRun2) = 243 / 845"
    by (simp add: vision_apartRun2)
  from equal_positions_distance [OF p refl update_togetherFrame(1,2) e] p h
  show ?thesis by (simp only: update_togetherFrame simp_thms)
qed

text \<open>
  C4 as stated fails: after two frames with the hands 0.8 apart, a frame with both hands
  at the same position leaves handsDistance at 867/10985, not 0.
\<close>

theorem equal_positions_nonzero:
  "detected (leftHand (update (visionRun newVisionManager apartRun2) 3 (results togetherFrame)))
   \<and> detected (rightHand (update (visionRun newVisionManager apartRun2) 3 (results togetherFrame)))
   \<and> HandData.position (leftHand (update (visionRun newVisionManager apartRun2) 3 (results togetherFrame)))
     = HandData.position (rightHand (update (visionRun newVisionManager apartRun2) 3 (results togetherFrame)))
   \<and> handsDistance (update (visionRun newVisionManager apartRun2) 3 (results togetherFrame)) \<noteq> 0"
  by (simp add: update_togetherFrame)

text \<open>
  C5 (as amended). In every reachable state with the SPHERE layout, a frame on which the
  right hand is detected and not pinching changes the pitch by rotationSpeed.y * 0.05 and
  the yaw by rotationSpeed.x * 0.05 plus the 0.002 that \<^verbatim>\<open>PhotoSystem.update\<close> adds on
  every SPHERE frame; a frame on which the right hand is not detected leaves the pitch and
  changes the yaw by 0.004, or by 0.002 when the left hand is detected with a pinchDistance
  of at least 0.2 (an open left hand). The roll is unchanged in both cases.
\<close>

theorem sphere_rotation:
  assumes "s = run L (newApp n) evs" and "state (photoSystem s) = SPHERE"
    and "s' = frame L s inp"
    and "rh = rightHand (visionManager s')" and "lh = leftHand (visionManager s')"
    and "rot = sphereRotation (photoSystem s)"
  shows "(detected rh \<and> \<not> isPinching rh \<longrightarrow>
            sphereRotation (photoSystem s') =
              Vec3 (x3 rot + y2 (rotationSpeed rh) * 0.05)
                   (y3 rot + x2 (rotationSpeed rh) * 0.05 + 0.002) (z3 rot))
       \<and> (\<not> detected rh \<longrightarrow>
            sphereRotation (photoSystem s') =
              Vec3 (x3 rot)
                   (y3 rot + (if \<not> detected lh \<or> pinchDistance lh < 0.2 then 0.004 else 0.002))
                   (z3 rot))"
  by (rule sphere_frame_rotation [OF assms])

theorem sphere_rotation_witness:
  "state (photoSystem (run flatThree (newApp 2) sphereRun)) = SPHERE
   \<and> sphereRotation (photoSystem (run flatThree (newApp 2) sphereRun)) = Vec3 0 (1 / 500) 0
   \<and> detected (rightHand (visionManager
        (frame flatThree (run flatThree (newApp 2) sphereRun) (steerFrame None))))
   \<and> \<not> isPinching (rightHand (visionManager
        (frame flatThree (run flatThree (newApp 2) sphereRun) (steerFrame None))))
   \<and> sphereRotation (photoSystem
        (frame flatThree (run flatThree (newApp 2) sphereRun) (steerFrame None)))
       = Vec3 0 (1 / 500 + 0 * 0.05 + 0.002) 0
   \<and> \<not> detected (rightHand (visionManager
        (frame flatThree (run flatThree (newApp 2) sphereRun) leftPinchFrame)))
   \<and> sphereRotation (photoSystem
        (frame flatThree (run flatThree (newApp 2) sphereRun) leftPinchFrame))
       = Vec3 0 (1 / 500 + 0.004) 0"
proof -
  have a: "state (photoSystem (run flatThree (newApp 2) sphereRun)) = SPHERE"
    by (rule sphere_sphereRun)
  note b = sphere_rotation [OF refl a refl refl refl refl, of "steerFrame None"]
  note c = sphere_rotation [OF refl a refl refl refl refl, of leftPinchFrame]
  from a b c show ?thesis
    by (simp add: vision_of_run vision_steer vision_leftPinch sphere_sphereRun(4))
qed

text \<open>
  C5 as stated fails: with the right hand detected, not pinching and at the centre
  (rotationSpeed 0) the yaw still grows by 0.002; and with the right hand absent and the
  left hand pinching the yaw grows by 0.004, where no rotation was claimed.
\<close>

theorem sphere_rotation_extra_yaw:
  "state (photoSystem (run flatThree (newApp 2) sphereRun)) = SPHERE
   \<and> sphereRotation (photoSystem (run flatThree (newApp 2) sphereRun)) = Vec3 0 (1 / 500) 0
   \<and> detected (rightHand (visionManager
        (frame flatThree (run flatThree (newApp 2) sphereRun) (steerFrame None))))
   \<and> \<not> isPinching (rightHand (visionManager
        (frame flatThree (run flatThree (newApp 2) sphereRun) (steerFrame None))))
   \<and> rotationSpeed (rightHand (visionManager
        (frame flatThree (run flatThree (newApp 2) sphereRun) (steerFrame None)))) = Vec2 0 0
   \<and> sphereRotation (photoSystem
        (frame flatThree (run flatThree (newApp 2) sphereRun) (steerFrame None)))
       = Vec3 0 (1 / 250) 0
   \<and> \<not> detected (rightHand (visionManager
        (frame flatThree (run flatThree (newApp 2) sphereRun) leftPinchFrame)))
   \<and> isPinching (leftHand (visionManager
        (frame flatThree (run flatThree (newApp 2) sphereRun) leftPinchFrame)))
   \<and> sphereRotation (photoSystem
        (frame flatThree (run flatThree (newApp 2) sphereRun) leftPinchFrame))
       = Vec3 0 (3 / 500) 0"
proof -
  have a: "state (photoSystem (run flatThree (newApp 2) sphereRun)) = SPHERE"
    by (rule sphere_sphereRun)
  note b = sphere_frame_rotation [OF refl a refl refl refl refl, of "steerFrame None"]
  note c = sphere_frame_rotation [OF refl a refl refl refl refl, of leftPinchFrame]
  from a b c show ?thesis
    by (simp add: vision_of_run vision_steer vision_leftPinch sphere_sphereRun(4))
qed

text \<open>
  C6. Over every history, from every state, the number of \<^verbatim>\<open>explode()\<close> calls grows by
  exactly the number of steps that take the layout from CRYSTAL_BALL to SPHERE: each such
  step fires the explosion once, and no other step (in particular no pinch while the layout
  is already SPHERE) fires it.
\<close>

theorem explode_once_per_transition:
  "explodeCalls (explosionSystem (photoSystem (run L s evs))) =
     explodeCalls (explosionSystem (photoSystem s)) + transitions L s evs"
proof (induction evs arbitrary: s)
  case Nil
  show ?case by simp
next
  case (Cons ev evs)
  show ?case
    by (simp only: run_Cons Cons.IH step_explode transitions.simps add.assoc)
qed

theorem explode_once_per_transition_witness:
  "state (photoSystem (run flatThree (newApp 2) sphereRun)) = SPHERE
   \<and> gesture (leftHand (visionManager (run flatThree (newApp 2) (sphereRun @ [Frame leftPinchFrame]))))
       = PINCH_START
   \<and> explodeCalls (explosionSystem (photoSystem
        (run flatThree (newApp 2) (sphereRun @ [Frame leftPinchFrame])))) = 1
   \<and> transitions flatThree (newApp 2) (sphereRun @ [Frame leftPinchFrame]) = 1"
proof -
  let ?s = "run flatThree (newApp 2) sphereRun"
  have a: "state (photoSystem ?s) = SPHERE" by (simp add: sphere_sphereRun)
  have "explodeCalls (explosionSystem (photoSystem (frame flatThree ?s leftPinchFrame)))
          = explodeCalls (explosionSystem (photoSystem ?s))"
    using a by (simp add: frame_explode)
  then have e: "explodeCalls (explosionSystem (photoSystem
        (run flatThree (newApp 2) (sphereRun @ [Frame leftPinchFrame])))) = 1"
    by (simp only: run_frame sphere_sphereRun(3))
  have g: "gesture (leftHand (visionManager
        (run flatThree (newApp 2) (sphereRun @ [Frame leftPinchFrame])))) = PINCH_START"
    by (simp add: run_frame vision_of_run vision_leftPinch)
  from explode_once_per_transition [of flatThree "newApp 2" "sphereRun @ [Frame leftPinchFrame]"]
    a e g show ?thesis
    by (simp add: newApp_photo)
qed

text \<open>
  C7. After every call of \<^verbatim>\<open>update()\<close>, in every reachable state, if at least one of the
  two hands is not detected, handsDistance has the value it had before the call and
  handsDetectedBoth is false.
\<close>

theorem freeze_on_partial_loss:
  assumes "vm = visionRun newVisionManager evs" and "vm' = update vm t ds"
    and "\<not> (detected (leftHand vm') \<and> detected (rightHand vm'))"
  shows "handsDistance vm' = handsDistance vm \<and> \<not> handsDetectedBoth vm'"
proof (cases "processes vm t")
  case True
  have "\<not> (detected (leftHand (update vm t ds)) \<and> detected (rightHand (update vm t ds)))"
    using assms(2,3) by simp
  then show ?thesis
    unfolding assms(2) by (auto simp add: update_distance [OF True])
next
  case False
  then have "vm' = vm" using assms by (simp add: update_skip)
  moreover have "visionInv vm" using assms(1) by (simp add: visionInv_run)
  ultimately show ?thesis using assms(3) by (simp add: visionInv_def)
qed

theorem freeze_on_partial_loss_witness:
  "handsDetectedBoth (visionRun newVisionManager apartRun)
   \<and> handsDistance (visionRun newVisionManager apartRun) = 9 / 65
   \<and> \<not> detected (leftHand (update (visionRun newVisionManager apartRun) 2 (results rightOnlyFrame)))
   \<and> detected (rightHand (update (visionRun newVisionManager apartRun) 2 (results rightOnlyFrame)))
   \<and> handsDistance (update (visionRun newVisionManager apartRun) 2 (results rightOnlyFrame)) = 9 / 65
   \<and> \<not> handsDetectedBoth (update (visionRun newVisionManager apartRun) 2 (results rightOnlyFrame))"
proof -
  have n: "\<not> (detected (leftHand (update (visionRun newVisionManager apartRun) 2 (results rightOnlyFrame)))
            \<and> detected (rightHand (update (visionRun newVisionManager apartRun) 2 (results rightOnlyFrame))))"
    by (simp add: update_rightOnlyFrame)
  have a: "handsDetectedBoth (visionRun newVisionManager apartRun)"
      "handsDistance (visionRun newVisionManager apartRun) = 9 / 65"
    by (simp_all add: vision_apartRun)
  from freeze_on_partial_loss [OF refl refl n] update_rightOnlyFrame a show ?thesis
    by simp
qed

text \<open>
  C8. \<^verbatim>\<open>setDetailLayout\<close> with an index that is negative or not below the number of
  photos returns the photo system unchanged: the layout state, the selected index and every
  target transform are what they were.
\<close>

theorem detail_out_of_range_noop:
  assumes "index < 0 \<or> index \<ge> int (count ps)"
  shows "setDetailLayout L ps index = ps
         \<and> state (setDetailLayout L ps index) = state ps
         \<and> selectedIndex (setDetailLayout L ps index) = selectedIndex ps
         \<and> targetTransforms (setDetailLayout L ps index) = targetTransforms ps"
  using assms by (simp add: setDetailLayout_def)

theorem detail_out_of_range_noop_witness:
  "count (newPhotoSystem 2) = 2
   \<and> setDetailLayout flatThree (newPhotoSystem 2) 2 = newPhotoSystem 2
   \<and> setDetailLayout flatThree (newPhotoSystem 2) (- 1) = newPhotoSystem 2
   \<and> state (setDetailLayout flatThree (newPhotoSystem 2) 2) = CRYSTAL_BALL"
proof -
  have c: "count (newPhotoSystem 2) = 2" "state (newPhotoSystem 2) = CRYSTAL_BALL"
    by (simp_all add: newPhotoSystem_def setCrystalBallLayout_def)
  have "(2::int) < 0 \<or> 2 \<ge> int (count (newPhotoSystem 2))" by (simp add: c)
  moreover have "(- 1::int) < 0 \<or> - 1 \<ge> int (count (newPhotoSystem 2))" by simp
  ultimately show ?thesis
    using detail_out_of_range_noop [of 2 "newPhotoSystem 2" flatThree]
      detail_out_of_range_noop [of "- 1" "newPhotoSystem 2" flatThree] c
    by simp
qed

text \<open>
  C9. In every state reachable from the initial one, whatever the events and inputs, the
  pinchDistance of both hands, handsDistance and every photo's hover intensity lie in
  the interval from 0 to 1.
\<close>

theorem unit_interval_invariant:
  assumes "s = run L (newApp n) evs"
  shows "0 \<le> pinchDistance (leftHand (visionManager s))
         \<and> pinchDistance (leftHand (visionManager s)) \<le> 1
         \<and> 0 \<le> pinchDistance (rightHand (visionManager s))
         \<and> pinchDistance (rightHand (visionManager s)) \<le> 1
         \<and> 0 \<le> handsDistance (visionManager s) \<and> handsDistance (visionManager s) \<le> 1
         \<and> (\<forall>h \<in> set (hoverIntensities (photoSystem s)). 0 \<le> h \<and> h \<le> 1)"
proof -
  have "visionInv (visionManager s)"
    unfolding assms by (simp add: vision_of_run visionInv_run)
  moreover have "hoverBounded (photoSystem s)"
    unfolding assms by (rule hoverBounded_run [OF hoverBounded_new])
  ultimately show ?thesis
    by (simp add: visionInv_def handRest_def hoverBounded_def)
qed

theorem unit_interval_invariant_witness:
  "hoverIntensities (photoSystem
      (run flatThree (newApp 2) (sphereRun @ [Frame (steerFrame (Some 0))]))) = [3 / 20, 0]
   \<and> pinchDistance (rightHand (visionManager
      (run flatThree (newApp 2) (sphereRun @ [Frame (steerFrame (Some 0))])))) = 17 / 22
   \<and> pinchDistance (leftHand (visionManager
      (run flatThree (newApp 2) (sphereRun @ [Frame (steerFrame (Some 0))])))) = 0
   \<and> handsDistance (visionManager
      (run flatThree (newApp 2) (sphereRun @ [Frame (steerFrame (Some 0))]))) = 0"
proof -
  note t = unit_interval_invariant
    [OF refl, of flatThree 2 "sphereRun @ [Frame (steerFrame (Some 0))]"]
  have "hoverIntensities (photoSystem
      (run flatThree (newApp 2) (sphereRun @ [Frame (steerFrame (Some 0))]))) = [3 / 20, 0]"
    by (simp only: run_frame hover_steer)
  with t show ?thesis
    by (simp add: run_frame vision_of_run vision_steer)
qed

text \<open>
  C10. FIST is level-triggered, with no debounce: whenever \<^verbatim>\<open>update()\<close> processes a
  frame, whatever the state and the clock, a hand slot whose last landmark sample of the
  frame has at least three of the four fingertips within 0.15 of the wrist is detected
  with the gesture FIST; so every frame of a held fist reports FIST.
\<close>

theorem fist_level_triggered:
  assumes "processes vm t" and "slotDetections r ds \<noteq> []"
    and "closedFingers (landmarks (last (slotDetections r ds))) \<ge> 3"
  shows "detected (handOf r (update vm t ds)) \<and> gesture (handOf r (update vm t ds)) = FIST"
  using assms
  by (simp add: handOf_update slotAfter_def redetect_def updateHandData_fist)

theorem fist_level_triggered_witness:
  "gesture (rightHand (visionRun newVisionManager fistRun)) = FIST
   \<and> processes (visionRun newVisionManager fistRun) 2
   \<and> closedFingers (landmarks (last (slotDetections True (results fistAgainFrame)))) = 4
   \<and> detected (handOf True (update (visionRun newVisionManager fistRun) 2 (results fistAgainFrame)))
   \<and> gesture (handOf True (update (visionRun newVisionManager fistRun) 2 (results fistAgainFrame))) = FIST"
proof -
  have p: "processes (visionRun newVisionManager fistRun) 2"
    by (simp add: processes_def vision_fistRun)
  have s: "slotDetections True (results fistAgainFrame) = [seen ''Right'' (fistHand 0.5) 5033]"
    by (simp add: slotDetections_def fistAgainFrame_def videoFrame_def seen_def)
  have c: "closedFingers (landmarks (last (slotDetections True (results fistAgainFrame)))) = 4"
    by (simp add: s seen_def poses_eval)
  have "slotDetections True (results fistAgainFrame) \<noteq> []"
    by (simp add: s)
  from fist_level_triggered [OF p this] c p show ?thesis
    by (simp add: vision_fistRun)
qed

end
